theory Spec2Isabelle
  imports Complex_Main "HOL-Library.Word" "HOL-Library.Signed_Division"
begin

unbundle bit_operations_syntax

section \<open>Machine types\<close>

text \<open>
  The driver works on fixed-width C integers.  A \<open>uint8_t\<close> is an \<open>8 word\<close> and so on;
  a signed type is the word of the same width read with \<open>sint\<close>.  Arithmetic on words
  wraps around, which is what the target (a 32-bit two's complement core) does.
  \<open>BME280_S32_t\<close>, \<open>BME280_U32_t\<close> and \<open>BME280_S64_t\<close> are the 32-bit signed, 32-bit
  unsigned and 64-bit signed types.
\<close>

type_synonym u8 = "8 word"
type_synonym s8 = "8 word"
type_synonym u16 = "16 word"
type_synonym s16 = "16 word"
type_synonym u32 = "32 word"
type_synonym s32 = "32 word"
type_synonym s64 = "64 word"

section \<open>Constants of \<open>bme280_definitions.h\<close>\<close>

text \<open>
  \<open>bme280.h\<close> includes \<open>bme280_definitions.h\<close>, which is not among the sources.  The
  constants the functions below use are given here.
\<close>

text \<open>Modelled from the spec: return values of \<open>bme280_definitions.h\<close> (missing).  Success is
  0 (the platform callbacks in \<open>bme280.c\<close> return 0 on success and the header calls every
  non-zero callback result an interface error); the error kinds of section 7 are distinct
  negative codes.\<close>

definition BME280_OK :: s8 where "BME280_OK = 0"
definition BME280_PARAM_ERR :: s8 where "BME280_PARAM_ERR = - 1"
definition BME280_INTERFACE_ERR :: s8 where "BME280_INTERFACE_ERR = - 2"
definition BME280_ID_ERR :: s8 where "BME280_ID_ERR = - 3"
definition BME280_NO_INIT_ERR :: s8 where "BME280_NO_INIT_ERR = - 4"
definition BME280_CONDITION_ERR :: s8 where "BME280_CONDITION_ERR = - 5"
definition BME280_BUSY_ERR :: s8 where "BME280_BUSY_ERR = - 6"

text \<open>Modelled from the spec: the register address map of \<open>bme280_definitions.h\<close> (missing),
  with the manufacturer's values (section 6), and the lengths of the two calibration
  ranges as the parser uses them (25 bytes and 7 bytes, section 4.3).\<close>

definition BME280_ID_ADDR :: u8 where "BME280_ID_ADDR = 0xD0"
definition BME280_RESET_ADDR :: u8 where "BME280_RESET_ADDR = 0xE0"
definition BME280_RESET_VALUE :: u8 where "BME280_RESET_VALUE = 0xB6"
definition BME280_CTRL_HUM_ADDR :: u8 where "BME280_CTRL_HUM_ADDR = 0xF2"
definition BME280_STATUS_ADDR :: u8 where "BME280_STATUS_ADDR = 0xF3"
definition BME280_CTRL_MEAS_ADDR :: u8 where "BME280_CTRL_MEAS_ADDR = 0xF4"
definition BME280_CONFIG_ADDR :: u8 where "BME280_CONFIG_ADDR = 0xF5"
definition BME280_CALIB_DATA1_ADDR :: u8 where "BME280_CALIB_DATA1_ADDR = 0x88"
definition BME280_CALIB_DATA1_LEN :: u8 where "BME280_CALIB_DATA1_LEN = 25"
definition BME280_CALIB_DATA2_ADDR :: u8 where "BME280_CALIB_DATA2_ADDR = 0xE1"
definition BME280_CALIB_DATA2_LEN :: u8 where "BME280_CALIB_DATA2_LEN = 7"

text \<open>Modelled from the spec: the enumerated setting codes of \<open>bme280_definitions.h\<close> (missing).
  The mode codes agree with the private enum \<open>sleep_mode\<close>, \<open>forced_mode\<close>,
  \<open>normal_mode\<close> of \<open>bme280.c\<close>; the oversampling codes are those of section 4.5
  (codes 0, 1, 2 are their own multiplier, 3 is x4, 4 is x8, 5 is x16).\<close>

definition BME280_SLEEPMODE :: u8 where "BME280_SLEEPMODE = 0x00"
definition BME280_FORCEDMODE :: u8 where "BME280_FORCEDMODE = 0x01"
definition BME280_NORMALMODE :: u8 where "BME280_NORMALMODE = 0x03"

definition BME280_OVERSAMPLING_SKIPPED :: u8 where "BME280_OVERSAMPLING_SKIPPED = 0x00"
definition BME280_OVERSAMPLING_X1 :: u8 where "BME280_OVERSAMPLING_X1 = 0x01"
definition BME280_OVERSAMPLING_X2 :: u8 where "BME280_OVERSAMPLING_X2 = 0x02"
definition BME280_OVERSAMPLING_X4 :: u8 where "BME280_OVERSAMPLING_X4 = 0x03"
definition BME280_OVERSAMPLING_X8 :: u8 where "BME280_OVERSAMPLING_X8 = 0x04"
definition BME280_OVERSAMPLING_X16 :: u8 where "BME280_OVERSAMPLING_X16 = 0x05"

definition BME280_STBY_20MS :: u8 where "BME280_STBY_20MS = 0x07"
definition BME280_FILTER_16 :: u8 where "BME280_FILTER_16 = 0x04"

text \<open>The private enums of \<open>bme280.c\<close>.  The enumerator \<open>initialized\<close> shares its name with
  the structure member and is written \<open>initialized_enum\<close> here.\<close>

definition sleep_mode :: u8 where "sleep_mode = 0x00"
definition forced_mode :: u8 where "forced_mode = 0x01"
definition normal_mode :: u8 where "normal_mode = 0x03"

definition not_initialized :: u8 where "not_initialized = 0x00"
definition initialized_enum :: u8 where "initialized_enum = 0x01"

section \<open>Data model\<close>

text \<open>Modelled from the spec: the calibration store, a structure declared in
  \<open>bme280_definitions.h\<close> (missing).  The member names are those \<open>bme280.c\<close> uses, the
  member types those of section 3: \<open>T1\<close> and \<open>P1\<close> unsigned 16-bit, \<open>H1\<close> and \<open>H3\<close>
  unsigned 8-bit, \<open>H6\<close> signed 8-bit, the others signed 16-bit.  Signed members are
  read with \<open>sint\<close>, unsigned ones with \<open>uint\<close>.\<close>

record BME280_calibration_data =
  dig_T1 :: u16
  dig_T2 :: s16
  dig_T3 :: s16
  dig_P1 :: u16
  dig_P2 :: s16
  dig_P3 :: s16
  dig_P4 :: s16
  dig_P5 :: s16
  dig_P6 :: s16
  dig_P7 :: s16
  dig_P8 :: s16
  dig_P9 :: s16
  dig_H1 :: u8
  dig_H2 :: s16
  dig_H3 :: u8
  dig_H4 :: s16
  dig_H5 :: s16
  dig_H6 :: s8

text \<open>
  Modelled from the spec: the bus capability, a structure declared in
  \<open>bme280_definitions.h\<close> (missing), with the callback signatures of
  \<open>bme280_read_platform_spec\<close>, \<open>bme280_write_platform_spec\<close> and
  \<open>bme280_delay_platform_spec\<close> in \<open>bme280.c\<close>.  The three members are C function
  pointers and may be null (\<open>None\<close>).  The callbacks act on an environment \<open>'e\<close> (the
  sensor behind the bus and whatever \<open>env_spec_data\<close> points to):
  \<^item> \<open>read reg_addr rxlen\<close> returns the callback's result and the bytes it leaves in
    \<open>rxbuff[0 .. rxlen)\<close>, as a function of the offset;
  \<^item> \<open>write reg_addr value\<close> returns the callback's result;
  \<^item> \<open>delay ms\<close> only changes the environment.
  The member \<open>write\<close> is written \<open>write_fn\<close>.
\<close>

record 'e BME280_Driver_t =
  read :: "(u8 \<Rightarrow> u8 \<Rightarrow> 'e \<Rightarrow> s8 \<times> (nat \<Rightarrow> u8) \<times> 'e) option"
  write_fn :: "(u8 \<Rightarrow> u8 \<Rightarrow> 'e \<Rightarrow> s8 \<times> 'e) option"
  delay :: "(u32 \<Rightarrow> 'e \<Rightarrow> 'e) option"

text \<open>
  Modelled from the spec: the device structure, declared in \<open>bme280_definitions.h\<close>
  (missing), with the members \<open>bme280.c\<close> uses.  \<open>driver\<close> is a pointer in C: \<open>None\<close>
  is the null pointer (a device never given to \<open>BME280_Init\<close>), \<open>Some drv\<close> a pointer
  to the driver structure \<open>drv\<close>, whose members may be null in turn.  Every function
  below starts after its \<open>IS_NULL(Dev)\<close> guard: it is given a device.
\<close>

record 'e BME280_t =
  trimm :: BME280_calibration_data
  driver :: "'e BME280_Driver_t option"
  t_fine :: s32
  mode :: u8
  initialized :: u8

text \<open>Modelled from the spec: the configuration structure of \<open>BME280_ConfigureAll\<close>,
  declared in \<open>bme280_definitions.h\<close> (missing), with the members \<open>bme280.c\<close> uses, each
  one byte.  Its members \<open>filter\<close> and \<open>mode\<close> are written \<open>filter_cfg\<close> and \<open>mode_cfg\<close>.\<close>

record BME280_Config_t =
  oversampling_t :: u8
  oversampling_p :: u8
  oversampling_h :: u8
  t_stby :: u8
  filter_cfg :: u8
  spi3w_enable :: u8
  mode_cfg :: u8

section \<open>Bus access\<close>

text \<open>
  Every call of a driver callback is recorded in a trace, so that the number of bus
  reads and writes of an operation can be counted.  The source reads \<open>Dev->driver->read\<close>
  (or \<open>write\<close>, \<open>delay\<close>) and calls it, with no test.  Dereferencing a null \<open>Dev->driver\<close>
  and calling through a null function pointer have no defined behaviour in C; both
  are the outcome \<open>None\<close>.
\<close>

datatype bus_op = Bus_read u8 u8 | Bus_write u8 u8 | Bus_delay u32

record 'e bus =
  env :: 'e
  trace :: "bus_op list"

definition drv_read ::
  "'e BME280_t \<Rightarrow> u8 \<Rightarrow> u8 \<Rightarrow> 'e bus \<Rightarrow> (s8 \<times> (nat \<Rightarrow> u8) \<times> 'e bus) option" where
  "drv_read Dev reg_addr rxlen b =
     (case driver Dev of
        None \<Rightarrow> None
      | Some drv \<Rightarrow>
          (case read drv of
             None \<Rightarrow> None
           | Some f \<Rightarrow>
               (case f reg_addr rxlen (env b) of
                  (res, rx, e) \<Rightarrow>
                    Some (res, rx, \<lparr>env = e, trace = trace b @ [Bus_read reg_addr rxlen]\<rparr>))))"

definition drv_write ::
  "'e BME280_t \<Rightarrow> u8 \<Rightarrow> u8 \<Rightarrow> 'e bus \<Rightarrow> (s8 \<times> 'e bus) option" where
  "drv_write Dev reg_addr val b =
     (case driver Dev of
        None \<Rightarrow> None
      | Some drv \<Rightarrow>
          (case write_fn drv of
             None \<Rightarrow> None
           | Some f \<Rightarrow>
               (case f reg_addr val (env b) of
                  (res, e) \<Rightarrow>
                    Some (res, \<lparr>env = e, trace = trace b @ [Bus_write reg_addr val]\<rparr>))))"

definition drv_delay :: "'e BME280_t \<Rightarrow> u32 \<Rightarrow> 'e bus \<Rightarrow> 'e bus option" where
  "drv_delay Dev ms b =
     (case driver Dev of
        None \<Rightarrow> None
      | Some drv \<Rightarrow>
          (case delay drv of
             None \<Rightarrow> None
           | Some f \<Rightarrow> Some \<lparr>env = f ms (env b), trace = trace b @ [Bus_delay ms]\<rparr>))"

fun is_read :: "bus_op \<Rightarrow> bool" where
  "is_read (Bus_read a n) = True"
| "is_read (Bus_write a v) = False"
| "is_read (Bus_delay ms) = False"

fun is_write :: "bus_op \<Rightarrow> bool" where
  "is_write (Bus_read a n) = False"
| "is_write (Bus_write a v) = True"
| "is_write (Bus_delay ms) = False"

definition bus_reads :: "'e bus \<Rightarrow> nat" where
  "bus_reads b = length (filter is_read (trace b))"

definition bus_writes :: "'e bus \<Rightarrow> nat" where
  "bus_writes b = length (filter is_write (trace b))"

section \<open>Mode checks\<close>

definition bme280_is_sleep_mode :: "'e BME280_t \<Rightarrow> s8" where
  "bme280_is_sleep_mode Dev =
     (if not_initialized = initialized Dev then BME280_NO_INIT_ERR
      else if sleep_mode \<noteq> mode Dev then BME280_CONDITION_ERR
      else BME280_OK)"

section \<open>Reset and bulk configuration\<close>

text \<open>
  The guard of \<open>BME280_Reset\<close> is \<open>IS_NULL(Dev) || IS_NULL(Dev->driver->write)\<close>: it reads
  the \<open>write\<close> member through \<open>Dev->driver\<close> without testing that pointer.  On a
  device whose \<open>driver\<close> is null the call has no defined behaviour (\<open>None\<close>).
\<close>

definition BME280_Reset ::
  "'e BME280_t \<Rightarrow> 'e bus \<Rightarrow> (s8 \<times> 'e BME280_t \<times> 'e bus) option" where
  "BME280_Reset Dev b =
     (case driver Dev of
        None \<Rightarrow> None
      | Some drv \<Rightarrow>
          if write_fn drv = None then Some (BME280_PARAM_ERR, Dev, b)
          else
            (case drv_write Dev BME280_RESET_ADDR BME280_RESET_VALUE b of
               None \<Rightarrow> None
             | Some (res, b1) \<Rightarrow> Some (res, Dev\<lparr>mode := sleep_mode\<rparr>, b1)))"

definition BME280_ConfigureAll ::
  "'e BME280_t \<Rightarrow> BME280_Config_t option \<Rightarrow> 'e bus \<Rightarrow> (s8 \<times> 'e BME280_t \<times> 'e bus) option" where
  "BME280_ConfigureAll Dev Config b =
     (case Config of
        None \<Rightarrow> Some (BME280_PARAM_ERR, Dev, b)
      | Some cfg \<Rightarrow>
          (let res = bme280_is_sleep_mode Dev in
           if BME280_OK \<noteq> res then Some (res, Dev, b)
           else
             (let ctrl_hum = oversampling_h cfg AND 0x07;
                  ctrl_meas = 0 OR (push_bit 5 (oversampling_t cfg) AND 0xE0);
                  ctrl_meas = ctrl_meas OR (push_bit 2 (oversampling_p cfg) AND 0x1C);
                  ctrl_meas = ctrl_meas OR (mode_cfg cfg AND 0x03);
                  config = 0 OR (push_bit 5 (t_stby cfg) AND 0xE0);
                  config = config OR (push_bit 2 (filter_cfg cfg) AND 0x1C);
                  config = config OR (spi3w_enable cfg AND 0x01)
              in
                (case drv_write Dev BME280_CTRL_HUM_ADDR ctrl_hum b of
                   None \<Rightarrow> None
                 | Some (res, b1) \<Rightarrow>
                     if BME280_OK \<noteq> res then Some (BME280_INTERFACE_ERR, Dev, b1)
                     else
                       (case drv_write Dev BME280_CTRL_MEAS_ADDR ctrl_meas b1 of
                          None \<Rightarrow> None
                        | Some (res, b2) \<Rightarrow>
                            if BME280_OK \<noteq> res then Some (BME280_INTERFACE_ERR, Dev, b2)
                            else
                              (case drv_write Dev BME280_CONFIG_ADDR config b2 of
                                 None \<Rightarrow> None
                               | Some (res, b3) \<Rightarrow>
                                   if BME280_OK \<noteq> res then Some (BME280_INTERFACE_ERR, Dev, b3)
                                   else
                                     Some (res,
                                       (if BME280_SLEEPMODE = mode_cfg cfg
                                          then Dev\<lparr>mode := sleep_mode\<rparr>
                                        else if BME280_FORCEDMODE = mode_cfg cfg
                                          then Dev\<lparr>mode := forced_mode\<rparr>
                                        else if BME280_NORMALMODE = mode_cfg cfg
                                          then Dev\<lparr>mode := normal_mode\<rparr>
                                        else Dev),
                                       b3)))))))"

section \<open>Setters\<close>

text \<open>
  \<open>BME280_SetMode\<close> is the only setter that may run outside sleep mode: it returns
  early only on \<open>BME280_NO_INIT_ERR\<close>.
\<close>

definition BME280_SetMode ::
  "'e BME280_t \<Rightarrow> u8 \<Rightarrow> 'e bus \<Rightarrow> (s8 \<times> 'e BME280_t \<times> 'e bus) option" where
  "BME280_SetMode Dev Mode b =
     (if Mode > BME280_NORMALMODE then Some (BME280_PARAM_ERR, Dev, b)
      else
        (let res = bme280_is_sleep_mode Dev in
         if BME280_NO_INIT_ERR = res then Some (res, Dev, b)
         else
           (case drv_read Dev BME280_CTRL_MEAS_ADDR 1 b of
              None \<Rightarrow> None
            | Some (res, rx, b1) \<Rightarrow>
                if BME280_OK \<noteq> res then Some (BME280_INTERFACE_ERR, Dev, b1)
                else
                  (let ctrl_meas = rx 0;
                       tmp = ctrl_meas AND 0x03;
                       tmp = (if 0x02 = tmp then BME280_FORCEDMODE else tmp)
                   in
                     if Mode = tmp then Some (BME280_OK, Dev, b1)
                     else
                       (let ctrl_meas = ctrl_meas AND 0xFC;
                            ctrl_meas = ctrl_meas OR Mode
                        in
                          (case drv_write Dev BME280_CTRL_MEAS_ADDR ctrl_meas b1 of
                             None \<Rightarrow> None
                           | Some (res, b2) \<Rightarrow>
                               if BME280_OK \<noteq> res then Some (BME280_INTERFACE_ERR, Dev, b2)
                               else Some (res, Dev\<lparr>mode := Mode\<rparr>, b2)))))))"

definition BME280_SetPOvs ::
  "'e BME280_t \<Rightarrow> u8 \<Rightarrow> 'e bus \<Rightarrow> (s8 \<times> 'e BME280_t \<times> 'e bus) option" where
  "BME280_SetPOvs Dev POvs b =
     (if POvs > BME280_OVERSAMPLING_X16 then Some (BME280_PARAM_ERR, Dev, b)
      else
        (let res = bme280_is_sleep_mode Dev in
         if BME280_OK \<noteq> res then Some (res, Dev, b)
         else
           (case drv_read Dev BME280_CTRL_MEAS_ADDR 1 b of
              None \<Rightarrow> None
            | Some (res, rx, b1) \<Rightarrow>
                if BME280_OK \<noteq> res then Some (BME280_INTERFACE_ERR, Dev, b1)
                else
                  (let ctrl_meas = rx 0;
                       tmp = drop_bit 2 ctrl_meas AND 0x07
                   in
                     if POvs = tmp then Some (BME280_OK, Dev, b1)
                     else
                       (let ctrl_meas = ctrl_meas AND 0xE3;
                            ctrl_meas = ctrl_meas OR push_bit 2 POvs
                        in
                          (case drv_write Dev BME280_CTRL_MEAS_ADDR ctrl_meas b1 of
                             None \<Rightarrow> None
                           | Some (res, b2) \<Rightarrow> Some (res, Dev, b2)))))))"

definition BME280_SetTOvs ::
  "'e BME280_t \<Rightarrow> u8 \<Rightarrow> 'e bus \<Rightarrow> (s8 \<times> 'e BME280_t \<times> 'e bus) option" where
  "BME280_SetTOvs Dev TOvs b =
     (if TOvs > BME280_OVERSAMPLING_X16 then Some (BME280_PARAM_ERR, Dev, b)
      else
        (let res = bme280_is_sleep_mode Dev in
         if BME280_OK \<noteq> res then Some (res, Dev, b)
         else
           (case drv_read Dev BME280_CTRL_MEAS_ADDR 1 b of
              None \<Rightarrow> None
            | Some (res, rx, b1) \<Rightarrow>
                if BME280_OK \<noteq> res then Some (BME280_INTERFACE_ERR, Dev, b1)
                else
                  (let ctrl_meas = rx 0;
                       tmp = drop_bit 5 ctrl_meas AND 0x07
                   in
                     if TOvs = tmp then Some (BME280_OK, Dev, b1)
                     else
                       (let ctrl_meas = ctrl_meas AND 0x1F;
                            ctrl_meas = ctrl_meas OR push_bit 5 TOvs
                        in
                          (case drv_write Dev BME280_CTRL_MEAS_ADDR ctrl_meas b1 of
                             None \<Rightarrow> None
                           | Some (res, b2) \<Rightarrow> Some (res, Dev, b2)))))))"

text \<open>The humidity setter has no read-compare-skip step: it writes \<open>ctrl_hum\<close>, then
  reads \<open>ctrl_meas\<close> and writes the same byte back.\<close>

definition BME280_SetHOvs ::
  "'e BME280_t \<Rightarrow> u8 \<Rightarrow> 'e bus \<Rightarrow> (s8 \<times> 'e BME280_t \<times> 'e bus) option" where
  "BME280_SetHOvs Dev HOvs b =
     (if HOvs > BME280_OVERSAMPLING_X16 then Some (BME280_PARAM_ERR, Dev, b)
      else
        (let res = bme280_is_sleep_mode Dev in
         if BME280_OK \<noteq> res then Some (res, Dev, b)
         else
           (case drv_write Dev BME280_CTRL_HUM_ADDR HOvs b of
              None \<Rightarrow> None
            | Some (res, b1) \<Rightarrow>
                if BME280_OK \<noteq> res then Some (BME280_INTERFACE_ERR, Dev, b1)
                else
                  (case drv_read Dev BME280_CTRL_MEAS_ADDR 1 b1 of
                     None \<Rightarrow> None
                   | Some (res, rx, b2) \<Rightarrow>
                       if BME280_OK \<noteq> res then Some (BME280_INTERFACE_ERR, Dev, b2)
                       else
                         (let tmp = rx 0 in
                            (case drv_write Dev BME280_CTRL_MEAS_ADDR tmp b2 of
                               None \<Rightarrow> None
                             | Some (res, b3) \<Rightarrow> Some (res, Dev, b3)))))))"

definition BME280_SetTStby ::
  "'e BME280_t \<Rightarrow> u8 \<Rightarrow> 'e bus \<Rightarrow> (s8 \<times> 'e BME280_t \<times> 'e bus) option" where
  "BME280_SetTStby Dev TStby b =
     (if TStby > BME280_STBY_20MS then Some (BME280_PARAM_ERR, Dev, b)
      else
        (let res = bme280_is_sleep_mode Dev in
         if BME280_OK \<noteq> res then Some (res, Dev, b)
         else
           (case drv_read Dev BME280_CONFIG_ADDR 1 b of
              None \<Rightarrow> None
            | Some (res, rx, b1) \<Rightarrow>
                if BME280_OK \<noteq> res then Some (BME280_INTERFACE_ERR, Dev, b1)
                else
                  (let config = rx 0;
                       tmp = drop_bit 5 config AND 0x07
                   in
                     if TStby = tmp then Some (BME280_OK, Dev, b1)
                     else
                       (let config = config AND 0x1F;
                            config = config OR push_bit 5 TStby
                        in
                          (case drv_write Dev BME280_CONFIG_ADDR config b1 of
                             None \<Rightarrow> None
                           | Some (res, b2) \<Rightarrow> Some (res, Dev, b2)))))))"

definition BME280_SetFilter ::
  "'e BME280_t \<Rightarrow> u8 \<Rightarrow> 'e bus \<Rightarrow> (s8 \<times> 'e BME280_t \<times> 'e bus) option" where
  "BME280_SetFilter Dev Filter b =
     (if Filter > BME280_FILTER_16 then Some (BME280_PARAM_ERR, Dev, b)
      else
        (let res = bme280_is_sleep_mode Dev in
         if BME280_OK \<noteq> res then Some (res, Dev, b)
         else
           (case drv_read Dev BME280_CONFIG_ADDR 1 b of
              None \<Rightarrow> None
            | Some (res, rx, b1) \<Rightarrow>
                if BME280_OK \<noteq> res then Some (BME280_INTERFACE_ERR, Dev, b1)
                else
                  (let config = rx 0;
                       tmp = drop_bit 2 config AND 0x07
                   in
                     if Filter = tmp then Some (BME280_OK, Dev, b1)
                     else
                       (let config = config AND 0xE3;
                            config = config OR push_bit 2 Filter
                        in
                          (case drv_write Dev BME280_CONFIG_ADDR config b1 of
                             None \<Rightarrow> None
                           | Some (res, b2) \<Rightarrow> Some (res, Dev, b2)))))))"

definition BME280_Enable3WireSPI ::
  "'e BME280_t \<Rightarrow> 'e bus \<Rightarrow> (s8 \<times> 'e BME280_t \<times> 'e bus) option" where
  "BME280_Enable3WireSPI Dev b =
     (let res = bme280_is_sleep_mode Dev in
      if BME280_OK \<noteq> res then Some (res, Dev, b)
      else
        (case drv_read Dev BME280_CONFIG_ADDR 1 b of
           None \<Rightarrow> None
         | Some (res, rx, b1) \<Rightarrow>
             if BME280_OK \<noteq> res then Some (BME280_INTERFACE_ERR, Dev, b1)
             else
               (let config = rx 0;
                    tmp = config AND 0x01
                in
                  if 0x01 = tmp then Some (BME280_OK, Dev, b1)
                  else
                    (let config = config AND 0xFE;
                         config = config OR 0x01
                     in
                       (case drv_write Dev BME280_CONFIG_ADDR config b1 of
                          None \<Rightarrow> None
                        | Some (res, b2) \<Rightarrow> Some (res, Dev, b2))))))"

definition BME280_Disable3WireSPI ::
  "'e BME280_t \<Rightarrow> 'e bus \<Rightarrow> (s8 \<times> 'e BME280_t \<times> 'e bus) option" where
  "BME280_Disable3WireSPI Dev b =
     (let res = bme280_is_sleep_mode Dev in
      if BME280_OK \<noteq> res then Some (res, Dev, b)
      else
        (case drv_read Dev BME280_CONFIG_ADDR 1 b of
           None \<Rightarrow> None
         | Some (res, rx, b1) \<Rightarrow>
             if BME280_OK \<noteq> res then Some (BME280_INTERFACE_ERR, Dev, b1)
             else
               (let config = rx 0;
                    tmp = config AND 0x01
                in
                  if 0x00 = tmp then Some (BME280_OK, Dev, b1)
                  else
                    (let config = config AND 0xFE in
                       (case drv_write Dev BME280_CONFIG_ADDR config b1 of
                          None \<Rightarrow> None
                        | Some (res, b2) \<Rightarrow> Some (res, Dev, b2))))))"

section \<open>Calibration parser and initialisation\<close>

text \<open>The macros \<open>CAT_I16T\<close> and \<open>CAT_UI16T\<close>: both bytes are widened, the most significant
  one is shifted left by 8, and the result is converted to 16 bits.\<close>

definition CAT_I16T :: "u8 \<Rightarrow> u8 \<Rightarrow> s16" where
  "CAT_I16T msb lsb = push_bit 8 (ucast msb) OR ucast lsb"

definition CAT_UI16T :: "u8 \<Rightarrow> u8 \<Rightarrow> u16" where
  "CAT_UI16T msb lsb = push_bit 8 (ucast msb) OR ucast lsb"

text \<open>A read of \<open>rxlen\<close> bytes into a buffer at offset \<open>off\<close>.\<close>

definition buf_store :: "(nat \<Rightarrow> u8) \<Rightarrow> nat \<Rightarrow> u8 \<Rightarrow> (nat \<Rightarrow> u8) \<Rightarrow> nat \<Rightarrow> u8" where
  "buf_store buf off rxlen rx =
     (\<lambda>i. if off \<le> i \<and> i < off + unat rxlen then rx (i - off) else buf i)"

text \<open>The assignments of \<open>bme280_read_compensation_parameters\<close> after its two reads: the
  byte-to-field mapping from \<open>tmp_buff\<close>.\<close>

definition parse_trimm :: "(nat \<Rightarrow> u8) \<Rightarrow> BME280_calibration_data" where
  "parse_trimm tmp_buff =
     \<lparr> dig_T1 = CAT_UI16T (tmp_buff 1) (tmp_buff 0),
       dig_T2 = CAT_I16T (tmp_buff 3) (tmp_buff 2),
       dig_T3 = CAT_I16T (tmp_buff 5) (tmp_buff 4),
       dig_P1 = CAT_UI16T (tmp_buff 7) (tmp_buff 6),
       dig_P2 = CAT_I16T (tmp_buff 9) (tmp_buff 8),
       dig_P3 = CAT_I16T (tmp_buff 11) (tmp_buff 10),
       dig_P4 = CAT_I16T (tmp_buff 13) (tmp_buff 12),
       dig_P5 = CAT_I16T (tmp_buff 15) (tmp_buff 14),
       dig_P6 = CAT_I16T (tmp_buff 17) (tmp_buff 16),
       dig_P7 = CAT_I16T (tmp_buff 19) (tmp_buff 18),
       dig_P8 = CAT_I16T (tmp_buff 21) (tmp_buff 20),
       dig_P9 = CAT_I16T (tmp_buff 23) (tmp_buff 22),
       dig_H1 = tmp_buff 24,
       dig_H2 = CAT_I16T (tmp_buff 26) (tmp_buff 25),
       dig_H3 = tmp_buff 27,
       dig_H4 = push_bit 4 (ucast (tmp_buff 28)) OR (ucast (tmp_buff 29) AND 0x0F),
       dig_H5 = push_bit 4 (ucast (tmp_buff 30)) OR drop_bit 4 (ucast (tmp_buff 29)),
       dig_H6 = tmp_buff 31 \<rparr>"

text \<open>\<open>tmp_buff\<close> is a local array of 32 bytes without initialiser; the two reads fill
  all of it (offsets 0 to 24 and 25 to 31).\<close>

definition bme280_read_compensation_parameters ::
  "'e BME280_t \<Rightarrow> 'e bus \<Rightarrow> (s8 \<times> 'e BME280_t \<times> 'e bus) option" where
  "bme280_read_compensation_parameters Dev b =
     (case drv_read Dev BME280_CALIB_DATA1_ADDR BME280_CALIB_DATA1_LEN b of
        None \<Rightarrow> None
      | Some (res, rx1, b1) \<Rightarrow>
          if BME280_OK \<noteq> res then Some (BME280_INTERFACE_ERR, Dev, b1)
          else
            (case drv_read Dev BME280_CALIB_DATA2_ADDR BME280_CALIB_DATA2_LEN b1 of
               None \<Rightarrow> None
             | Some (res, rx2, b2) \<Rightarrow>
                 if BME280_OK \<noteq> res then Some (BME280_INTERFACE_ERR, Dev, b2)
                 else
                   (let tmp_buff = buf_store (\<lambda>i. 0) 0 BME280_CALIB_DATA1_LEN rx1;
                        tmp_buff = buf_store tmp_buff 25 BME280_CALIB_DATA2_LEN rx2
                    in Some (BME280_OK, Dev\<lparr>trimm := parse_trimm tmp_buff\<rparr>, b2))))"

text \<open>
  \<open>BME280_Init\<close>.  The driver argument is a pointer and may be null.  The identity byte
  is read into a local variable and never looked at: the comparison with \<open>BME280_ID\<close> is
  commented out in the source.
\<close>

definition BME280_Init ::
  "'e BME280_t \<Rightarrow> 'e BME280_Driver_t option \<Rightarrow> 'e bus \<Rightarrow> (s8 \<times> 'e BME280_t \<times> 'e bus) option" where
  "BME280_Init Dev Driver b =
     (case Driver of
        None \<Rightarrow> Some (BME280_PARAM_ERR, Dev, b)
      | Some drv \<Rightarrow>
          if write_fn drv = None \<or> read drv = None \<or> delay drv = None
          then Some (BME280_PARAM_ERR, Dev, b)
          else
            (case BME280_Reset (Dev\<lparr>driver := Some drv\<rparr>) b of
               None \<Rightarrow> None
             | Some (res, Dev1, b1) \<Rightarrow>
                 if BME280_OK \<noteq> res then Some (res, Dev1, b1)
                 else
                   (case drv_delay Dev1 4 b1 of
                      None \<Rightarrow> None
                    | Some b2 \<Rightarrow>
                        (case drv_read Dev1 BME280_ID_ADDR 1 b2 of
                           None \<Rightarrow> None
                         | Some (res, rx, b3) \<Rightarrow>
                             if BME280_OK \<noteq> res then Some (BME280_INTERFACE_ERR, Dev1, b3)
                             else
                               (case bme280_read_compensation_parameters Dev1 b3 of
                                  None \<Rightarrow> None
                                | Some (res, Dev2, b4) \<Rightarrow>
                                    Some (res,
                                      (if BME280_OK = res
                                         then Dev2\<lparr>initialized := initialized_enum\<rparr>
                                       else Dev2),
                                      b4))))))"

section \<open>Forced mode\<close>

definition bme280_osrs_to_oversampling :: "u8 \<Rightarrow> u8" where
  "bme280_osrs_to_oversampling osrs =
     (if osrs \<le> BME280_OVERSAMPLING_X2 then osrs
      else if BME280_OVERSAMPLING_X4 = osrs then 4
      else if BME280_OVERSAMPLING_X8 = osrs then 8
      else 16)"

text \<open>
  \<open>bme280_set_forced_mode\<close> writes the delay through a pointer; the model takes the
  old value of \<open>*delay\<close> and returns the new one.  The delay is computed in
  \<open>unsigned int\<close> and stored into a \<open>uint8_t\<close>.
\<close>

definition bme280_set_forced_mode ::
  "'e BME280_t \<Rightarrow> u8 \<Rightarrow> 'e bus \<Rightarrow> (s8 \<times> u8 \<times> 'e BME280_t \<times> 'e bus) option" where
  "bme280_set_forced_mode Dev delay_out b =
     (case drv_read Dev BME280_CTRL_HUM_ADDR 3 b of
        None \<Rightarrow> None
      | Some (res, buff, b1) \<Rightarrow>
          if BME280_OK \<noteq> res then Some (BME280_INTERFACE_ERR, delay_out, Dev, b1)
          else
            (let buff1 = buff 1 AND 0x09 in
             if 0 \<noteq> buff1 then Some (BME280_BUSY_ERR, delay_out, Dev, b1)
             else
               (let mode_reg = buff 2 AND 0x03 in
                if BME280_SLEEPMODE \<noteq> mode_reg then Some (BME280_CONDITION_ERR, delay_out, Dev, b1)
                else
                  (let osrs_p = drop_bit 2 (buff 2) AND 0x07;
                       osrs_t = drop_bit 5 (buff 2) AND 0x07;
                       osrs_h = buff 0 AND 0x07;
                       osrs_p = bme280_osrs_to_oversampling osrs_p;
                       osrs_t = bme280_osrs_to_oversampling osrs_t;
                       osrs_h = bme280_osrs_to_oversampling osrs_h;
                       delay_new = ucast
                         (((125 + (230 * ucast osrs_t) + ((230 * ucast osrs_p) + 58)
                            + ((230 * ucast osrs_h) + 58)) div 100) + 1 :: u32);
                       buff2 = buff 2 AND 0xFC;
                       buff2 = buff2 OR BME280_FORCEDMODE
                   in
                     (case drv_write Dev BME280_CTRL_MEAS_ADDR buff2 b1 of
                        None \<Rightarrow> None
                      | Some (res, b2) \<Rightarrow>
                          if BME280_OK \<noteq> res then Some (BME280_INTERFACE_ERR, delay_new, Dev, b2)
                          else Some (res, delay_new, Dev, b2))))))"

section \<open>Compensation\<close>

text \<open>
  C division truncates towards zero; \<open>div_s\<close> is that division on signed words.  A
  division whose divisor is a variable goes through \<open>checked_div_s\<close> or
  \<open>checked_div_u\<close>: dividing by zero is the outcome \<open>None\<close>.  Right shifts of signed
  values are arithmetic (\<open>signed_drop_bit\<close>); sums and products wrap around.
\<close>

definition div_s :: "'a::len word \<Rightarrow> 'a word \<Rightarrow> 'a word" where
  "div_s a b = word_of_int (sint a sdiv sint b)"

definition checked_div_s :: "'a::len word \<Rightarrow> 'a word \<Rightarrow> 'a word option" where
  "checked_div_s a b = (if b = 0 then None else Some (div_s a b))"

definition checked_div_u :: "'a::len word \<Rightarrow> 'a word \<Rightarrow> 'a word option" where
  "checked_div_u a b = (if b = 0 then None else Some (a div b))"

definition bme280_compensate_h_u32t :: "'e BME280_t \<Rightarrow> s32 \<Rightarrow> u32" where
  "bme280_compensate_h_u32t Dev adc_H =
     (let var1 = t_fine Dev - 76800;
          var2 = adc_H * 16384;
          var3 = scast (dig_H4 (trimm Dev)) * 1048576;
          var4 = scast (dig_H5 (trimm Dev)) * var1;
          var5 = div_s (((var2 - var3) - var4) + 16384) 32768;
          var2 = div_s (var1 * scast (dig_H6 (trimm Dev))) 1024;
          var3 = div_s (var1 * ucast (dig_H3 (trimm Dev))) 2048;
          var4 = div_s (var2 * (var3 + 32768)) 1024 + 2097152;
          var2 = div_s ((var4 * scast (dig_H2 (trimm Dev))) + 8192) 16384;
          var3 = var5 * var2;
          var4 = div_s (div_s var3 32768 * div_s var3 32768) 128;
          var5 = var3 - div_s (var4 * ucast (dig_H1 (trimm Dev))) 16;
          var5 = (if var5 <s 0 then 0 else var5);
          var5 = (if 419430400 <s var5 then 419430400 else var5);
          humidity = div_s var5 4096
      in humidity)"

text \<open>The value of \<open>var5\<close> in \<open>bme280_compensate_h_u32t\<close> after the two clamping
  assignments, before the final division.\<close>

definition h_var5_clamped :: "'e BME280_t \<Rightarrow> s32 \<Rightarrow> s32" where
  "h_var5_clamped Dev adc_H =
     (let var1 = t_fine Dev - 76800;
          var2 = adc_H * 16384;
          var3 = scast (dig_H4 (trimm Dev)) * 1048576;
          var4 = scast (dig_H5 (trimm Dev)) * var1;
          var5 = div_s (((var2 - var3) - var4) + 16384) 32768;
          var2 = div_s (var1 * scast (dig_H6 (trimm Dev))) 1024;
          var3 = div_s (var1 * ucast (dig_H3 (trimm Dev))) 2048;
          var4 = div_s (var2 * (var3 + 32768)) 1024 + 2097152;
          var2 = div_s ((var4 * scast (dig_H2 (trimm Dev))) + 8192) 16384;
          var3 = var5 * var2;
          var4 = div_s (div_s var3 32768 * div_s var3 32768) 128;
          var5 = var3 - div_s (var4 * ucast (dig_H1 (trimm Dev))) 16;
          var5 = (if var5 <s 0 then 0 else var5);
          var5 = (if 419430400 <s var5 then 419430400 else var5)
      in var5)"

text \<open>
  Pressure, 64-bit path (\<open>USE_64BIT\<close> is defined in \<open>bme280.h\<close>).  \<open>None\<close> is a division
  by zero.
\<close>

definition bme280_compensate_p_u32t :: "'e BME280_t \<Rightarrow> s32 \<Rightarrow> u32 option" where
  "bme280_compensate_p_u32t Dev adc_P =
     (let var1 = scast (t_fine Dev) - 128000 :: s64;
          var2 = var1 * var1 * scast (dig_P6 (trimm Dev));
          var2 = var2 + ((var1 * scast (dig_P5 (trimm Dev))) * 131072);
          var2 = var2 + (scast (dig_P4 (trimm Dev)) * 34359738368);
          var1 = div_s (var1 * var1 * scast (dig_P3 (trimm Dev))) 256
                   + (var1 * scast (dig_P2 (trimm Dev)) * 4096);
          var3 = 1 * 140737488355328;
          var1 = div_s ((var3 + var1) * ucast (dig_P1 (trimm Dev))) 8589934592
      in
        if var1 \<noteq> 0 then
          (let var4 = scast (1048576 - adc_P) :: s64 in
             (case checked_div_s (((var4 * 2147483648) - var2) * 3125) var1 of
                None \<Rightarrow> None
              | Some var4 \<Rightarrow>
                  (let var1 = div_s (scast (dig_P9 (trimm Dev)) * div_s var4 8192 * div_s var4 8192)
                                33554432;
                       var2 = div_s (scast (dig_P8 (trimm Dev)) * var4) 524288;
                       var4 = div_s (var4 + var1 + var2) 256 + (scast (dig_P7 (trimm Dev)) * 16)
                   in Some (ucast (div_s (div_s var4 2 * 100) 128)))))
        else Some 0)"

text \<open>The value of \<open>var1\<close> that the 64-bit path tests before dividing.\<close>

definition p64_var1 :: "'e BME280_t \<Rightarrow> s64" where
  "p64_var1 Dev =
     (let var1 = scast (t_fine Dev) - 128000 :: s64;
          var1 = div_s (var1 * var1 * scast (dig_P3 (trimm Dev))) 256
                   + (var1 * scast (dig_P2 (trimm Dev)) * 4096);
          var3 = 1 * 140737488355328;
          var1 = div_s ((var3 + var1) * ucast (dig_P1 (trimm Dev))) 8589934592
      in var1)"

text \<open>Pressure, 32-bit path (the \<open>#else\<close> branch, compiled when \<open>USE_64BIT\<close> is not
  defined).\<close>

definition bme280_compensate_p_u32t_32bit :: "'e BME280_t \<Rightarrow> s32 \<Rightarrow> u32 option" where
  "bme280_compensate_p_u32t_32bit Dev adc_P =
     (let var1 = signed_drop_bit 1 (t_fine Dev) - 64000;
          var2 = signed_drop_bit 11 (signed_drop_bit 2 var1 * signed_drop_bit 2 var1)
                   * scast (dig_P6 (trimm Dev));
          var2 = var2 + push_bit 1 (var1 * scast (dig_P5 (trimm Dev)));
          var2 = signed_drop_bit 2 var2 + push_bit 16 (scast (dig_P4 (trimm Dev)));
          var1 = signed_drop_bit 18
                   (signed_drop_bit 3
                      (scast (dig_P3 (trimm Dev))
                         * signed_drop_bit 13 (signed_drop_bit 2 var1 * signed_drop_bit 2 var1))
                    + signed_drop_bit 1 (scast (dig_P2 (trimm Dev)) * var1));
          var1 = signed_drop_bit 15 ((32768 + var1) * ucast (dig_P1 (trimm Dev)))
      in
        if var1 = 0 then Some 0
        else
          (let pressure = ((1048576 - adc_P) - signed_drop_bit 12 var2) * 3125 in
             (case (if pressure < 0x80000000
                    then checked_div_u (push_bit 1 pressure) var1
                    else map_option (\<lambda>q. q * 2) (checked_div_u pressure var1)) of
                None \<Rightarrow> None
              | Some pressure \<Rightarrow>
                  (let var1 = signed_drop_bit 12
                                (scast (dig_P9 (trimm Dev))
                                   * drop_bit 13 (drop_bit 3 pressure * drop_bit 3 pressure));
                       var2 = signed_drop_bit 13 (drop_bit 2 pressure * scast (dig_P8 (trimm Dev)));
                       pressure = pressure + signed_drop_bit 4 (var1 + var2 + scast (dig_P7 (trimm Dev)))
                   in Some pressure))))"

text \<open>The value of \<open>var1\<close> that the 32-bit path tests before dividing.\<close>

definition p32_var1 :: "'e BME280_t \<Rightarrow> s32" where
  "p32_var1 Dev =
     (let var1 = signed_drop_bit 1 (t_fine Dev) - 64000;
          var1 = signed_drop_bit 18
                   (signed_drop_bit 3
                      (scast (dig_P3 (trimm Dev))
                         * signed_drop_bit 13 (signed_drop_bit 2 var1 * signed_drop_bit 2 var1))
                    + signed_drop_bit 1 (scast (dig_P2 (trimm Dev)) * var1));
          var1 = signed_drop_bit 15 ((32768 + var1) * ucast (dig_P1 (trimm Dev)))
      in var1)"

section \<open>A sensor whose registers keep what is written\<close>

text \<open>
  The environment is a register file: a read returns the registers from the given
  address on and succeeds, a write stores the byte and succeeds, a delay changes
  nothing.  This is the sensor that reflects a write when it is read back.
\<close>

definition regfile_read :: "u8 \<Rightarrow> u8 \<Rightarrow> (u8 \<Rightarrow> u8) \<Rightarrow> s8 \<times> (nat \<Rightarrow> u8) \<times> (u8 \<Rightarrow> u8)" where
  "regfile_read reg_addr rxlen regs = (0, (\<lambda>i. regs (reg_addr + of_nat i)), regs)"

definition regfile_write :: "u8 \<Rightarrow> u8 \<Rightarrow> (u8 \<Rightarrow> u8) \<Rightarrow> s8 \<times> (u8 \<Rightarrow> u8)" where
  "regfile_write reg_addr val regs = (0, regs(reg_addr := val))"

definition regfile_delay :: "u32 \<Rightarrow> (u8 \<Rightarrow> u8) \<Rightarrow> (u8 \<Rightarrow> u8)" where
  "regfile_delay ms regs = regs"

definition regfile_driver :: "(u8 \<Rightarrow> u8) BME280_Driver_t" where
  "regfile_driver =
     \<lparr> read = Some regfile_read, write_fn = Some regfile_write, delay = Some regfile_delay \<rparr>"

text \<open>A write callback that always fails, with the value \<open>bme280_write_platform_spec\<close>
  returns when the transfer fails, and drivers built from it.\<close>

definition failing_write :: "u8 \<Rightarrow> u8 \<Rightarrow> (u8 \<Rightarrow> u8) \<Rightarrow> s8 \<times> (u8 \<Rightarrow> u8)" where
  "failing_write reg_addr val regs = (- 1, regs)"

definition failing_driver :: "(u8 \<Rightarrow> u8) BME280_Driver_t" where
  "failing_driver = regfile_driver\<lparr>write_fn := Some failing_write\<rparr>"

definition writeless_driver :: "(u8 \<Rightarrow> u8) BME280_Driver_t" where
  "writeless_driver = regfile_driver\<lparr>write_fn := None\<rparr>"

text \<open>Example states: a register file of zeros with an empty trace, a zeroed device
  structure with the register-file driver attached, and the same device after a
  successful initialisation.\<close>

definition zero_regs :: "u8 \<Rightarrow> u8" where
  "zero_regs = (\<lambda>a. 0)"

definition idle_bus :: "(u8 \<Rightarrow> u8) bus" where
  "idle_bus = \<lparr>env = zero_regs, trace = []\<rparr>"

definition blank_dev :: "(u8 \<Rightarrow> u8) BME280_t" where
  "blank_dev =
     \<lparr> trimm = parse_trimm (\<lambda>i. 0), driver = Some regfile_driver, t_fine = 0,
       mode = sleep_mode, initialized = not_initialized \<rparr>"

definition ready_dev :: "(u8 \<Rightarrow> u8) BME280_t" where
  "ready_dev = blank_dev\<lparr>initialized := initialized_enum\<rparr>"

text \<open>A device structure that was never given to \<open>BME280_Init\<close>: its driver pointer is
  null.\<close>

definition detached_dev :: "(u8 \<Rightarrow> u8) BME280_t" where
  "detached_dev = blank_dev\<lparr>driver := None\<rparr>"

text \<open>A register file holding some calibration bytes: \<open>T1\<close>, \<open>T2\<close>, \<open>T3\<close> at \<open>0x88\<close> to
  \<open>0x8D\<close>, and the three bytes shared by \<open>H4\<close> and \<open>H5\<close> at \<open>0xE4\<close> to \<open>0xE6\<close>.\<close>

definition calib_regs :: "u8 \<Rightarrow> u8" where
  "calib_regs =
     zero_regs(0x88 := 0x70, 0x89 := 0x6B, 0x8A := 0x43, 0x8B := 0x67, 0x8C := 0x18,
               0x8D := 0xFC, 0xE4 := 0x14, 0xE5 := 0x2D, 0xE6 := 0x03)"

text \<open>A register file of a sleeping, idle sensor with every oversampling set to x1:
  \<open>ctrl_hum = 0x01\<close>, \<open>status = 0\<close>, \<open>ctrl_meas = 0x24\<close>.\<close>

definition x1_regs :: "u8 \<Rightarrow> u8" where
  "x1_regs = zero_regs(0xF2 := 0x01, 0xF4 := 0x24)"

text \<open>A configuration: every oversampling x1, filter off, normal mode.\<close>

definition example_config :: BME280_Config_t where
  "example_config =
     \<lparr> oversampling_t = 1, oversampling_p = 1, oversampling_h = 1, t_stby = 0,
       filter_cfg = 0, spi3w_enable = 0, mode_cfg = BME280_NORMALMODE \<rparr>"

section \<open>The delay formula as the specification words it\<close>

text \<open>Section 4.5 of the specification gives the wait as
  \<open>ceil((125 + 230 T + 230 P + 58 + 230 H + 58) / 100) + 1\<close> over the multipliers.\<close>

definition spec_forced_delay :: "nat \<Rightarrow> nat \<Rightarrow> nat \<Rightarrow> nat" where
  "spec_forced_delay T P H =
     nat \<lceil>(125 + 230 * real T + 230 * real P + 58 + 230 * real H + 58) / 100\<rceil> + 1"

text \<open>The register-code-to-multiplier table of section 4.5, on numbers.\<close>

definition osrs_multiplier :: "nat \<Rightarrow> nat" where
  "osrs_multiplier c = (if c \<le> 2 then c else if c = 3 then 4 else if c = 4 then 8 else 16)"

section \<open>Basic facts\<close>

lemmas ret_defs = BME280_OK_def BME280_PARAM_ERR_def BME280_INTERFACE_ERR_def BME280_ID_ERR_def
  BME280_NO_INIT_ERR_def BME280_CONDITION_ERR_def BME280_BUSY_ERR_def

lemmas example_defs = blank_dev_def ready_dev_def detached_dev_def idle_bus_def zero_regs_def regfile_driver_def
  calib_regs_def x1_regs_def example_config_def
  regfile_read_def regfile_write_def regfile_delay_def failing_driver_def failing_write_def writeless_driver_def

lemmas enum_defs = sleep_mode_def forced_mode_def normal_mode_def not_initialized_def
  initialized_enum_def BME280_SLEEPMODE_def BME280_FORCEDMODE_def BME280_NORMALMODE_def
  BME280_OVERSAMPLING_X2_def BME280_OVERSAMPLING_X4_def BME280_OVERSAMPLING_X8_def
  BME280_OVERSAMPLING_X16_def BME280_STBY_20MS_def BME280_FILTER_16_def

lemma ret_distinct:
  "BME280_OK \<noteq> BME280_NO_INIT_ERR" "BME280_OK \<noteq> BME280_CONDITION_ERR"
  "BME280_OK \<noteq> BME280_PARAM_ERR" "BME280_OK \<noteq> BME280_INTERFACE_ERR"
  "BME280_OK \<noteq> BME280_ID_ERR" "BME280_OK \<noteq> BME280_BUSY_ERR"
  "BME280_INTERFACE_ERR \<noteq> BME280_ID_ERR"
  "BME280_PARAM_ERR \<noteq> BME280_NO_INIT_ERR" "BME280_PARAM_ERR \<noteq> BME280_CONDITION_ERR"
  "BME280_NO_INIT_ERR \<noteq> BME280_CONDITION_ERR"
  by (simp_all add: ret_defs)

lemma is_sleep_not_ok:
  "initialized Dev = not_initialized \<or> mode Dev \<noteq> sleep_mode \<Longrightarrow>
     bme280_is_sleep_mode Dev \<noteq> BME280_OK \<and>
     bme280_is_sleep_mode Dev =
       (if initialized Dev = not_initialized then BME280_NO_INIT_ERR else BME280_CONDITION_ERR)"
  by (auto simp: bme280_is_sleep_mode_def ret_defs)

lemma is_sleep_ok:
  "initialized Dev \<noteq> not_initialized \<Longrightarrow> mode Dev = sleep_mode \<Longrightarrow>
     bme280_is_sleep_mode Dev = BME280_OK"
  by (simp add: bme280_is_sleep_mode_def)

lemma drv_read_eq:
  "drv_read Dev a n b =
     (case driver Dev of
        None \<Rightarrow> None
      | Some drv \<Rightarrow>
          (case read drv of
             None \<Rightarrow> None
           | Some f \<Rightarrow>
               Some (fst (f a n (env b)), fst (snd (f a n (env b))),
                     \<lparr>env = snd (snd (f a n (env b))), trace = trace b @ [Bus_read a n]\<rparr>)))"
  by (simp add: drv_read_def split: option.splits prod.splits)

lemma drv_write_eq:
  "drv_write Dev a v b =
     (case driver Dev of
        None \<Rightarrow> None
      | Some drv \<Rightarrow>
          (case write_fn drv of
             None \<Rightarrow> None
           | Some f \<Rightarrow>
               Some (fst (f a v (env b)),
                     \<lparr>env = snd (f a v (env b)), trace = trace b @ [Bus_write a v]\<rparr>)))"
  by (simp add: drv_write_def split: option.splits prod.splits)

lemma drv_delay_eq:
  "drv_delay Dev ms b =
     (case driver Dev of
        None \<Rightarrow> None
      | Some drv \<Rightarrow>
          (case delay drv of
             None \<Rightarrow> None
           | Some f \<Rightarrow> Some \<lparr>env = f ms (env b), trace = trace b @ [Bus_delay ms]\<rparr>))"
  by (simp add: drv_delay_def)

section \<open>Preconditions of the setters\<close>

text \<open>
  Claim C1, as amended.  On a device that is not initialised or whose local mode is not
  sleep, each of the seven field setters and \<open>BME280_ConfigureAll\<close> returns an error and
  hands back the device and the bus untouched: the trace is the one it was given, so
  the call made no bus read and no bus write.  The error is \<open>BME280_NO_INIT_ERR\<close> on an
  uninitialised device and \<open>BME280_CONDITION_ERR\<close> otherwise, provided the argument is
  in range; the range check comes first, so an out-of-range value (or a null
  configuration) gives \<open>BME280_PARAM_ERR\<close> instead.
\<close>

theorem setters_refuse_outside_sleep:
  assumes "initialized Dev = not_initialized \<or> mode Dev \<noteq> sleep_mode"
  shows
    "(let err = (if initialized Dev = not_initialized then BME280_NO_INIT_ERR
                 else BME280_CONDITION_ERR)
      in
        BME280_SetPOvs Dev POvs b =
          Some (if POvs > BME280_OVERSAMPLING_X16 then BME280_PARAM_ERR else err, Dev, b) \<and>
        BME280_SetTOvs Dev TOvs b =
          Some (if TOvs > BME280_OVERSAMPLING_X16 then BME280_PARAM_ERR else err, Dev, b) \<and>
        BME280_SetHOvs Dev HOvs b =
          Some (if HOvs > BME280_OVERSAMPLING_X16 then BME280_PARAM_ERR else err, Dev, b) \<and>
        BME280_SetTStby Dev TStby b =
          Some (if TStby > BME280_STBY_20MS then BME280_PARAM_ERR else err, Dev, b) \<and>
        BME280_SetFilter Dev Filter b =
          Some (if Filter > BME280_FILTER_16 then BME280_PARAM_ERR else err, Dev, b) \<and>
        BME280_Enable3WireSPI Dev b = Some (err, Dev, b) \<and>
        BME280_Disable3WireSPI Dev b = Some (err, Dev, b) \<and>
        BME280_ConfigureAll Dev Config b =
          Some (if Config = None then BME280_PARAM_ERR else err, Dev, b))"
proof -
  note E = is_sleep_not_ok [OF assms, THEN conjunct1]
  note F = is_sleep_not_ok [OF assms, THEN conjunct2]
  have 1: "BME280_SetPOvs Dev POvs b =
      Some (if POvs > BME280_OVERSAMPLING_X16 then BME280_PARAM_ERR
            else bme280_is_sleep_mode Dev, Dev, b)"
    using E by (simp add: BME280_SetPOvs_def Let_def)
  have 2: "BME280_SetTOvs Dev TOvs b =
      Some (if TOvs > BME280_OVERSAMPLING_X16 then BME280_PARAM_ERR
            else bme280_is_sleep_mode Dev, Dev, b)"
    using E by (simp add: BME280_SetTOvs_def Let_def)
  have 3: "BME280_SetHOvs Dev HOvs b =
      Some (if HOvs > BME280_OVERSAMPLING_X16 then BME280_PARAM_ERR
            else bme280_is_sleep_mode Dev, Dev, b)"
    using E by (simp add: BME280_SetHOvs_def Let_def)
  have 4: "BME280_SetTStby Dev TStby b =
      Some (if TStby > BME280_STBY_20MS then BME280_PARAM_ERR
            else bme280_is_sleep_mode Dev, Dev, b)"
    using E by (simp add: BME280_SetTStby_def Let_def)
  have 5: "BME280_SetFilter Dev Filter b =
      Some (if Filter > BME280_FILTER_16 then BME280_PARAM_ERR
            else bme280_is_sleep_mode Dev, Dev, b)"
    using E by (simp add: BME280_SetFilter_def Let_def)
  have 6: "BME280_Enable3WireSPI Dev b = Some (bme280_is_sleep_mode Dev, Dev, b)"
    using E by (simp add: BME280_Enable3WireSPI_def Let_def)
  have 7: "BME280_Disable3WireSPI Dev b = Some (bme280_is_sleep_mode Dev, Dev, b)"
    using E by (simp add: BME280_Disable3WireSPI_def Let_def)
  have 8: "BME280_ConfigureAll Dev Config b =
      Some (if Config = None then BME280_PARAM_ERR else bme280_is_sleep_mode Dev, Dev, b)"
    using E by (simp add: BME280_ConfigureAll_def Let_def split: option.splits)
  show ?thesis
    unfolding Let_def 1 2 3 4 5 6 7 8 F by simp
qed

text \<open>The theorem at a device in normal mode and at an uninitialised one, with in-range
  arguments.\<close>

theorem setters_refuse_outside_sleep_witness:
  "mode (ready_dev\<lparr>mode := normal_mode\<rparr>) \<noteq> sleep_mode \<and>
   BME280_SetPOvs (ready_dev\<lparr>mode := normal_mode\<rparr>) 3 idle_bus =
     Some (BME280_CONDITION_ERR, ready_dev\<lparr>mode := normal_mode\<rparr>, idle_bus) \<and>
   BME280_SetHOvs (ready_dev\<lparr>mode := normal_mode\<rparr>) 1 idle_bus =
     Some (BME280_CONDITION_ERR, ready_dev\<lparr>mode := normal_mode\<rparr>, idle_bus) \<and>
   initialized blank_dev = not_initialized \<and>
   BME280_SetFilter blank_dev 2 idle_bus = Some (BME280_NO_INIT_ERR, blank_dev, idle_bus) \<and>
   BME280_ConfigureAll blank_dev (Some example_config) idle_bus =
     Some (BME280_NO_INIT_ERR, blank_dev, idle_bus)"
proof -
  have n: "initialized (ready_dev\<lparr>mode := normal_mode\<rparr>) = not_initialized \<or>
           mode (ready_dev\<lparr>mode := normal_mode\<rparr>) \<noteq> sleep_mode"
    by (simp add: enum_defs)
  have u: "initialized blank_dev = not_initialized \<or> mode blank_dev \<noteq> sleep_mode"
    by (simp add: blank_dev_def)
  have i: "initialized (ready_dev\<lparr>mode := normal_mode\<rparr>) \<noteq> not_initialized"
    by (simp add: example_defs enum_defs)
  show ?thesis
    using setters_refuse_outside_sleep [OF n, of 3 idle_bus 0 1 0 0 None]
      setters_refuse_outside_sleep [OF u, of 0 idle_bus 0 0 0 2 "Some example_config"] i
    by (simp add: Let_def enum_defs blank_dev_def)
qed

text \<open>
  The claim as stated fails where the argument is out of range: on the uninitialised
  device \<open>BME280_SetPOvs\<close> with the value 6 returns \<open>BME280_PARAM_ERR\<close>, which is neither
  of the two errors the claim names.
\<close>

theorem setters_refuse_outside_sleep_counterexample:
  "initialized blank_dev = not_initialized \<and>
   BME280_SetPOvs blank_dev 6 idle_bus = Some (BME280_PARAM_ERR, blank_dev, idle_bus) \<and>
   BME280_PARAM_ERR \<noteq> BME280_NO_INIT_ERR \<and> BME280_PARAM_ERR \<noteq> BME280_CONDITION_ERR"
  by (simp add: BME280_SetPOvs_def blank_dev_def enum_defs ret_defs)

section \<open>Reset\<close>

text \<open>
  Claim C2, as amended.  On a device with a driver attached (\<open>Dev->driver\<close> not null)
  whose driver has a write callback, \<open>BME280_Reset\<close> calls that callback once with the
  reset command, sets the local mode to sleep and returns whatever the callback
  returned, success or failure, from any mode and whatever the initialised flag.  On a
  device with a driver attached whose driver has no write callback, \<open>BME280_Reset\<close>
  returns \<open>BME280_PARAM_ERR\<close> and changes nothing.  On a device without a driver (never
  given to \<open>BME280_Init\<close>) the call dereferences a null pointer and has no defined
  result.
\<close>

theorem Reset_forces_sleep:
  "(\<forall>drv wr. driver Dev = Some drv \<and> write_fn drv = Some wr \<longrightarrow>
      BME280_Reset Dev b =
        Some (fst (wr BME280_RESET_ADDR BME280_RESET_VALUE (env b)),
              Dev\<lparr>mode := sleep_mode\<rparr>,
              \<lparr>env = snd (wr BME280_RESET_ADDR BME280_RESET_VALUE (env b)),
               trace = trace b @ [Bus_write BME280_RESET_ADDR BME280_RESET_VALUE]\<rparr>)) \<and>
   (\<forall>drv. driver Dev = Some drv \<and> write_fn drv = None \<longrightarrow>
      BME280_Reset Dev b = Some (BME280_PARAM_ERR, Dev, b)) \<and>
   (driver Dev = None \<longrightarrow> BME280_Reset Dev b = None)"
  by (auto simp: BME280_Reset_def drv_write_eq)

text \<open>The theorem at an initialised device in normal mode whose write callback fails
  (the failure is returned and the local mode is sleep), at a device whose driver has
  no write callback, and at a device without a driver.\<close>

theorem Reset_forces_sleep_witness:
  "driver (ready_dev\<lparr>driver := Some failing_driver, mode := normal_mode\<rparr>)
     = Some failing_driver \<and>
   write_fn failing_driver = Some failing_write \<and>
   BME280_Reset (ready_dev\<lparr>driver := Some failing_driver, mode := normal_mode\<rparr>) idle_bus =
     Some (- 1, ready_dev\<lparr>driver := Some failing_driver, mode := sleep_mode\<rparr>,
           \<lparr>env = zero_regs, trace = [Bus_write 0xE0 0xB6]\<rparr>) \<and>
   driver (blank_dev\<lparr>driver := Some writeless_driver\<rparr>) = Some writeless_driver \<and>
   write_fn writeless_driver = None \<and>
   BME280_Reset (blank_dev\<lparr>driver := Some writeless_driver\<rparr>) idle_bus =
     Some (BME280_PARAM_ERR, blank_dev\<lparr>driver := Some writeless_driver\<rparr>, idle_bus) \<and>
   driver detached_dev = None \<and>
   BME280_Reset detached_dev idle_bus = None"
  using
    Reset_forces_sleep [of "ready_dev\<lparr>driver := Some failing_driver, mode := normal_mode\<rparr>"
      idle_bus]
    Reset_forces_sleep [of "blank_dev\<lparr>driver := Some writeless_driver\<rparr>" idle_bus]
    Reset_forces_sleep [of detached_dev idle_bus]
  by (simp add: example_defs BME280_RESET_ADDR_def BME280_RESET_VALUE_def)

text \<open>
  The claim as stated fails on a device whose attached driver has no write callback:
  from normal mode, \<open>BME280_Reset\<close> returns \<open>BME280_PARAM_ERR\<close>, issues nothing on the
  bus and leaves the local mode normal.
\<close>

theorem Reset_forces_sleep_counterexample:
  "BME280_Reset (ready_dev\<lparr>driver := Some writeless_driver, mode := normal_mode\<rparr>) idle_bus =
     Some (BME280_PARAM_ERR, ready_dev\<lparr>driver := Some writeless_driver, mode := normal_mode\<rparr>,
           idle_bus) \<and>
   mode (ready_dev\<lparr>driver := Some writeless_driver, mode := normal_mode\<rparr>) \<noteq> sleep_mode \<and>
   trace idle_bus = []"
  by (simp add: BME280_Reset_def example_defs enum_defs)

section \<open>Initialisation\<close>

lemma read_compensation_parameters_result:
  assumes "driver Dev = Some drv" and "read drv = Some rd"
  shows "\<exists>res Dev2 b2. bme280_read_compensation_parameters Dev b = Some (res, Dev2, b2) \<and>
           (res = BME280_OK \<or> res = BME280_INTERFACE_ERR) \<and>
           (res \<noteq> BME280_OK \<longrightarrow> Dev2 = Dev) \<and>
           driver Dev2 = driver Dev \<and> mode Dev2 = mode Dev \<and>
           initialized Dev2 = initialized Dev \<and> t_fine Dev2 = t_fine Dev"
  by (simp add: bme280_read_compensation_parameters_def drv_read_eq assms Let_def
      ret_distinct)

text \<open>
  Claim C3, as amended.  \<open>BME280_Init\<close> always returns.  Whenever it returns a failure,
  the initialised flag, the calibration trims and the fine temperature are those of
  the input.  If the failure is the parameter check (no driver, or a driver lacking a
  callback), no field at all is changed; on any later failure the driver has been
  attached and the local mode has been set to sleep by the reset.
\<close>

theorem Init_failure_state:
  "(\<exists>res Dev' b'. BME280_Init Dev Driver b = Some (res, Dev', b')) \<and>
   (\<forall>res Dev' b'. BME280_Init Dev Driver b = Some (res, Dev', b') \<and> res \<noteq> BME280_OK \<longrightarrow>
      initialized Dev' = initialized Dev \<and> trimm Dev' = trimm Dev \<and>
      t_fine Dev' = t_fine Dev \<and>
      (case Driver of
         None \<Rightarrow> Dev' = Dev
       | Some drv \<Rightarrow>
           if write_fn drv = None \<or> read drv = None \<or> delay drv = None then Dev' = Dev
           else Dev' = Dev\<lparr>driver := Some drv, mode := sleep_mode\<rparr>))"
proof (cases Driver)
  case None
  then show ?thesis by (simp add: BME280_Init_def)
next
  case (Some drv)
  show ?thesis
  proof (cases "write_fn drv = None \<or> read drv = None \<or> delay drv = None")
    case True
    with Some show ?thesis by (auto simp: BME280_Init_def)
  next
    case False
    then obtain wr rd dl where
      cb: "write_fn drv = Some wr" "read drv = Some rd" "delay drv = Some dl"
      by auto
    let ?D1 = "Dev\<lparr>driver := Some drv, mode := sleep_mode\<rparr>"
    have d1: "driver ?D1 = Some drv" by simp
    have R: "BME280_Reset (Dev\<lparr>driver := Some drv\<rparr>) b =
        Some (fst (wr BME280_RESET_ADDR BME280_RESET_VALUE (env b)), ?D1,
              \<lparr>env = snd (wr BME280_RESET_ADDR BME280_RESET_VALUE (env b)),
               trace = trace b @ [Bus_write BME280_RESET_ADDR BME280_RESET_VALUE]\<rparr>)"
      using cb by (simp add: BME280_Reset_def drv_write_eq)
    show ?thesis
    proof (cases "BME280_OK \<noteq> fst (wr BME280_RESET_ADDR BME280_RESET_VALUE (env b))")
      case True
      then show ?thesis using Some cb by (simp add: BME280_Init_def R)
    next
      case ok: False
      define b2 where "b2 =
        \<lparr>env = dl 4 (snd (wr BME280_RESET_ADDR BME280_RESET_VALUE (env b))),
         trace = trace b @ [Bus_write BME280_RESET_ADDR BME280_RESET_VALUE] @ [Bus_delay 4]\<rparr>"
      define b3 where "b3 =
        \<lparr>env = snd (snd (rd BME280_ID_ADDR 1 (env b2))),
         trace = trace b2 @ [Bus_read BME280_ID_ADDR 1]\<rparr>"
      have D: "drv_delay ?D1 4
          \<lparr>env = snd (wr BME280_RESET_ADDR BME280_RESET_VALUE (env b)),
           trace = trace b @ [Bus_write BME280_RESET_ADDR BME280_RESET_VALUE]\<rparr> = Some b2"
        using cb by (simp add: drv_delay_eq b2_def)
      have I: "drv_read ?D1 BME280_ID_ADDR 1 b2 =
          Some (fst (rd BME280_ID_ADDR 1 (env b2)), fst (snd (rd BME280_ID_ADDR 1 (env b2))), b3)"
        using cb by (simp add: drv_read_eq b3_def)
      obtain res Dev2 b4 where
        P: "bme280_read_compensation_parameters ?D1 b3 = Some (res, Dev2, b4)"
        and P1: "res \<noteq> BME280_OK \<longrightarrow> Dev2 = ?D1"
        using read_compensation_parameters_result [OF d1 cb(2), of b3] by blast
      show ?thesis
        using Some cb ok P P1 by (simp add: BME280_Init_def R D I)
    qed
  qed
qed

text \<open>The theorem at a device in normal mode, given a driver whose write callback fails.\<close>

theorem Init_failure_state_witness:
  "BME280_Init (blank_dev\<lparr>mode := normal_mode\<rparr>) (Some failing_driver) idle_bus =
     Some (- 1, blank_dev\<lparr>driver := Some failing_driver\<rparr>,
           \<lparr>env = zero_regs, trace = [Bus_write 0xE0 0xB6]\<rparr>) \<and>
   - 1 \<noteq> BME280_OK \<and>
   initialized (blank_dev\<lparr>driver := Some failing_driver\<rparr>)
     = initialized (blank_dev\<lparr>mode := normal_mode\<rparr>) \<and>
   trimm (blank_dev\<lparr>driver := Some failing_driver\<rparr>) = trimm (blank_dev\<lparr>mode := normal_mode\<rparr>) \<and>
   t_fine (blank_dev\<lparr>driver := Some failing_driver\<rparr>) = t_fine (blank_dev\<lparr>mode := normal_mode\<rparr>)"
proof -
  have E: "BME280_Init (blank_dev\<lparr>mode := normal_mode\<rparr>) (Some failing_driver) idle_bus =
     Some (- 1, blank_dev\<lparr>driver := Some failing_driver\<rparr>,
           \<lparr>env = zero_regs, trace = [Bus_write 0xE0 0xB6]\<rparr>)"
    by (simp add: BME280_Init_def BME280_Reset_def drv_write_def example_defs enum_defs ret_defs
        BME280_RESET_ADDR_def BME280_RESET_VALUE_def)
  have N: "(- 1 :: s8) \<noteq> BME280_OK" by (simp add: ret_defs)
  from Init_failure_state [of "blank_dev\<lparr>mode := normal_mode\<rparr>" "Some failing_driver" idle_bus]
  have "\<forall>res Dev' b'.
      BME280_Init (blank_dev\<lparr>mode := normal_mode\<rparr>) (Some failing_driver) idle_bus
        = Some (res, Dev', b') \<and> res \<noteq> BME280_OK \<longrightarrow>
      initialized Dev' = initialized (blank_dev\<lparr>mode := normal_mode\<rparr>) \<and>
      trimm Dev' = trimm (blank_dev\<lparr>mode := normal_mode\<rparr>) \<and>
      t_fine Dev' = t_fine (blank_dev\<lparr>mode := normal_mode\<rparr>)"
    by blast
  with E N show ?thesis by blast
qed

text \<open>
  The claim as stated fails: a device in normal mode, given a driver whose write callback
  fails, has \<open>BME280_Init\<close> return the failure with the local mode changed to sleep.
\<close>

theorem Init_failure_state_counterexample:
  "BME280_Init (blank_dev\<lparr>mode := normal_mode\<rparr>) (Some failing_driver) idle_bus =
     Some (- 1, blank_dev\<lparr>driver := Some failing_driver\<rparr>,
           \<lparr>env = zero_regs, trace = [Bus_write 0xE0 0xB6]\<rparr>) \<and>
   - 1 \<noteq> BME280_OK \<and>
   mode (blank_dev\<lparr>mode := normal_mode\<rparr>) = normal_mode \<and>
   mode (blank_dev\<lparr>driver := Some failing_driver\<rparr>) = sleep_mode \<and>
   normal_mode \<noteq> sleep_mode"
  by (simp add: BME280_Init_def BME280_Reset_def drv_write_def example_defs enum_defs ret_defs
      BME280_RESET_ADDR_def BME280_RESET_VALUE_def)

text \<open>Every result code of \<open>BME280_Init\<close> is \<open>BME280_OK\<close>, \<open>BME280_PARAM_ERR\<close>,
  \<open>BME280_INTERFACE_ERR\<close> or the value the write callback returned for the reset
  command: no path produces \<open>BME280_ID_ERR\<close> itself.\<close>

lemma Init_result_codes:
  assumes "BME280_Init Dev Driver b = Some (res, Dev', b')"
  shows "res = BME280_OK \<or> res = BME280_PARAM_ERR \<or> res = BME280_INTERFACE_ERR \<or>
         (\<exists>drv wr. Driver = Some drv \<and> write_fn drv = Some wr \<and>
            res = fst (wr BME280_RESET_ADDR BME280_RESET_VALUE (env b)))"
proof (cases Driver)
  case None
  with assms show ?thesis by (simp add: BME280_Init_def)
next
  case (Some drv)
  show ?thesis
  proof (cases "write_fn drv = None \<or> read drv = None \<or> delay drv = None")
    case True
    with Some assms show ?thesis by (auto simp: BME280_Init_def)
  next
    case False
    then obtain wr rd dl where
      cb: "write_fn drv = Some wr" "read drv = Some rd" "delay drv = Some dl"
      by auto
    have d1: "driver (Dev\<lparr>driver := Some drv, mode := sleep_mode\<rparr>) = Some drv"
      by simp
    let ?b3 = "\<lparr>env = snd (snd (rd BME280_ID_ADDR 1
                  (dl 4 (snd (wr BME280_RESET_ADDR BME280_RESET_VALUE (env b)))))),
                trace = trace b @ [Bus_write BME280_RESET_ADDR BME280_RESET_VALUE,
                                   Bus_delay 4, Bus_read BME280_ID_ADDR 1]\<rparr>"
    obtain r2 D2 b4 where
      P: "bme280_read_compensation_parameters (Dev\<lparr>driver := Some drv, mode := sleep_mode\<rparr>) ?b3
            = Some (r2, D2, b4)"
      and P1: "r2 = BME280_OK \<or> r2 = BME280_INTERFACE_ERR"
      using read_compensation_parameters_result [OF d1 cb(2), of ?b3] by blast
    show ?thesis
      using assms Some cb P1
      by (auto simp: BME280_Init_def BME280_Reset_def drv_write_eq drv_delay_eq drv_read_eq P
          split: if_splits)
  qed
qed

text \<open>
  Claim C9.  Let the driver have its three callbacks, the reset write succeed and the
  read of the identity register succeed, leaving any byte \<open>id_rx 0\<close> in the buffer.
  Then \<open>BME280_Init\<close> goes on to the calibration parser, started on the device with the
  driver attached and the mode set to sleep, and its result is the parser's result:
  the identity byte does not occur in it.  The result code is \<open>BME280_OK\<close> or
  \<open>BME280_INTERFACE_ERR\<close>, never \<open>BME280_ID_ERR\<close>.
\<close>

theorem Init_ignores_identity:
  assumes "write_fn drv = Some wr" and "read drv = Some rd" and "delay drv = Some dl"
    and "wr BME280_RESET_ADDR BME280_RESET_VALUE (env b) = (BME280_OK, e1)"
    and "rd BME280_ID_ADDR 1 (dl 4 e1) = (BME280_OK, id_rx, e3)"
  shows
    "BME280_Init Dev (Some drv) b =
       (case bme280_read_compensation_parameters
               (Dev\<lparr>driver := Some drv, mode := sleep_mode\<rparr>)
               \<lparr>env = e3,
                trace = trace b @ [Bus_write BME280_RESET_ADDR BME280_RESET_VALUE,
                                   Bus_delay 4, Bus_read BME280_ID_ADDR 1]\<rparr> of
          None \<Rightarrow> None
        | Some (res, Dev2, b4) \<Rightarrow>
            Some (res, (if BME280_OK = res then Dev2\<lparr>initialized := initialized_enum\<rparr>
                        else Dev2), b4)) \<and>
     (\<exists>res Dev' b'. BME280_Init Dev (Some drv) b = Some (res, Dev', b') \<and>
        (res = BME280_OK \<or> res = BME280_INTERFACE_ERR) \<and> res \<noteq> BME280_ID_ERR)"
proof -
  let ?D1 = "Dev\<lparr>driver := Some drv, mode := sleep_mode\<rparr>"
  let ?b3 = "\<lparr>env = e3,
              trace = trace b @ [Bus_write BME280_RESET_ADDR BME280_RESET_VALUE,
                                 Bus_delay 4, Bus_read BME280_ID_ADDR 1]\<rparr>"
  have d1: "driver ?D1 = Some drv" by simp
  have step: "BME280_Init Dev (Some drv) b =
       (case bme280_read_compensation_parameters ?D1 ?b3 of
          None \<Rightarrow> None
        | Some (res, Dev2, b4) \<Rightarrow>
            Some (res, (if BME280_OK = res then Dev2\<lparr>initialized := initialized_enum\<rparr>
                        else Dev2), b4))"
    using assms
    by (simp add: BME280_Init_def BME280_Reset_def drv_write_eq drv_delay_eq drv_read_eq)
  obtain res Dev2 b4 where
    P: "bme280_read_compensation_parameters ?D1 ?b3 = Some (res, Dev2, b4)"
    and P1: "res = BME280_OK \<or> res = BME280_INTERFACE_ERR"
    using read_compensation_parameters_result [OF d1 assms(2), of ?b3] by blast
  have "res \<noteq> BME280_ID_ERR" using P1 ret_distinct by auto
  with P P1 step show ?thesis by simp
qed

text \<open>The theorem on the register file of zeros: the identity register holds 0, which
  is not the chip's identity, and initialisation succeeds.\<close>

theorem Init_ignores_identity_witness:
  "regfile_write BME280_RESET_ADDR BME280_RESET_VALUE (env idle_bus)
     = (BME280_OK, zero_regs(0xE0 := 0xB6)) \<and>
   regfile_read BME280_ID_ADDR 1 (zero_regs(0xE0 := 0xB6))
     = (BME280_OK, (\<lambda>i. (zero_regs(0xE0 := 0xB6)) (BME280_ID_ADDR + of_nat i)),
        zero_regs(0xE0 := 0xB6)) \<and>
   (zero_regs(0xE0 := 0xB6)) BME280_ID_ADDR = 0 \<and>
   (\<exists>Dev' b'. BME280_Init blank_dev (Some regfile_driver) idle_bus = Some (BME280_OK, Dev', b'))"
proof -
  have w: "write_fn regfile_driver = Some regfile_write"
    and r: "read regfile_driver = Some regfile_read"
    and d: "delay regfile_driver = Some regfile_delay"
    by (simp_all add: regfile_driver_def)
  have 1: "regfile_write BME280_RESET_ADDR BME280_RESET_VALUE (env idle_bus)
     = (BME280_OK, zero_regs(0xE0 := 0xB6))"
    by (simp add: regfile_write_def idle_bus_def BME280_OK_def BME280_RESET_ADDR_def
        BME280_RESET_VALUE_def)
  have 2: "regfile_read BME280_ID_ADDR 1 (regfile_delay 4 (zero_regs(0xE0 := 0xB6)))
     = (BME280_OK, (\<lambda>i. (zero_regs(0xE0 := 0xB6)) (BME280_ID_ADDR + of_nat i)),
        zero_regs(0xE0 := 0xB6))"
    by (simp add: regfile_read_def regfile_delay_def BME280_OK_def)
  have 3: "(zero_regs(0xE0 := 0xB6)) BME280_ID_ADDR = 0"
    by (simp add: zero_regs_def BME280_ID_ADDR_def)
  have 4: "bme280_read_compensation_parameters
             (blank_dev\<lparr>driver := Some regfile_driver, mode := sleep_mode\<rparr>)
             \<lparr>env = zero_regs(0xE0 := 0xB6),
              trace = trace idle_bus @ [Bus_write BME280_RESET_ADDR BME280_RESET_VALUE,
                                        Bus_delay 4, Bus_read BME280_ID_ADDR 1]\<rparr>
           = Some (BME280_OK,
               blank_dev\<lparr>driver := Some regfile_driver, mode := sleep_mode,
                 trimm := parse_trimm (buf_store (buf_store (\<lambda>i. 0) 0 BME280_CALIB_DATA1_LEN
                    (\<lambda>i. (zero_regs(0xE0 := 0xB6)) (BME280_CALIB_DATA1_ADDR + of_nat i)))
                    25 BME280_CALIB_DATA2_LEN
                    (\<lambda>i. (zero_regs(0xE0 := 0xB6)) (BME280_CALIB_DATA2_ADDR + of_nat i)))\<rparr>,
               \<lparr>env = zero_regs(0xE0 := 0xB6),
                trace = trace idle_bus @ [Bus_write BME280_RESET_ADDR BME280_RESET_VALUE,
                          Bus_delay 4, Bus_read BME280_ID_ADDR 1,
                          Bus_read BME280_CALIB_DATA1_ADDR BME280_CALIB_DATA1_LEN,
                          Bus_read BME280_CALIB_DATA2_ADDR BME280_CALIB_DATA2_LEN]\<rparr>)"
    by (simp add: bme280_read_compensation_parameters_def drv_read_def regfile_driver_def
        regfile_read_def BME280_OK_def Let_def)
  show ?thesis
    using Init_ignores_identity [where drv = regfile_driver and wr = regfile_write
        and rd = regfile_read and dl = regfile_delay and b = idle_bus and Dev = blank_dev
        and ?e1.0 = "zero_regs(0xE0 := 0xB6)" and ?e3.0 = "zero_regs(0xE0 := 0xB6)", OF w r d 1 2]
      1 2 3
    by (simp add: 4 regfile_delay_def)
qed

section \<open>Frame of the setters\<close>

lemma setter_frames:
  "BME280_SetPOvs Dev v b = Some (r, Dev', b') \<Longrightarrow> Dev' = Dev"
  "BME280_SetTOvs Dev v b = Some (r, Dev', b') \<Longrightarrow> Dev' = Dev"
  "BME280_SetHOvs Dev v b = Some (r, Dev', b') \<Longrightarrow> Dev' = Dev"
  "BME280_SetTStby Dev v b = Some (r, Dev', b') \<Longrightarrow> Dev' = Dev"
  "BME280_SetFilter Dev v b = Some (r, Dev', b') \<Longrightarrow> Dev' = Dev"
  by (auto simp: BME280_SetPOvs_def BME280_SetTOvs_def BME280_SetHOvs_def BME280_SetTStby_def
      BME280_SetFilter_def Let_def split: if_splits option.splits prod.splits)

lemma spi_setter_frames:
  "BME280_Enable3WireSPI Dev b = Some (r, Dev', b') \<Longrightarrow> Dev' = Dev"
  "BME280_Disable3WireSPI Dev b = Some (r, Dev', b') \<Longrightarrow> Dev' = Dev"
  by (auto simp: BME280_Enable3WireSPI_def BME280_Disable3WireSPI_def Let_def
      split: if_splits option.splits prod.splits)

lemma SetMode_frame:
  "BME280_SetMode Dev v b = Some (r, Dev', b') \<Longrightarrow>
     Dev' = Dev \<or> (r = BME280_OK \<and> Dev' = Dev\<lparr>mode := v\<rparr>)"
  by (auto simp: BME280_SetMode_def Let_def split: if_splits option.splits prod.splits)

lemma setters_return:
  assumes "driver Dev = Some drv" and "read drv = Some rd" and "write_fn drv = Some wr"
  shows "\<exists>r Dev' b'. BME280_SetPOvs Dev v b = Some (r, Dev', b')"
    and "\<exists>r Dev' b'. BME280_SetTOvs Dev v b = Some (r, Dev', b')"
    and "\<exists>r Dev' b'. BME280_SetHOvs Dev v b = Some (r, Dev', b')"
    and "\<exists>r Dev' b'. BME280_SetTStby Dev v b = Some (r, Dev', b')"
    and "\<exists>r Dev' b'. BME280_SetFilter Dev v b = Some (r, Dev', b')"
    and "\<exists>r Dev' b'. BME280_Enable3WireSPI Dev b = Some (r, Dev', b')"
    and "\<exists>r Dev' b'. BME280_Disable3WireSPI Dev b = Some (r, Dev', b')"
    and "\<exists>r Dev' b'. BME280_SetMode Dev v b = Some (r, Dev', b')"
  by (simp_all add: BME280_SetPOvs_def BME280_SetTOvs_def BME280_SetHOvs_def BME280_SetTStby_def
      BME280_SetFilter_def BME280_Enable3WireSPI_def BME280_Disable3WireSPI_def
      BME280_SetMode_def Let_def drv_read_eq drv_write_eq assms)

text \<open>
  Claim C10.  Whatever the device state and the argument, a call of one of the seven
  field setters that returns (with success or with an error) hands back the device
  structure it was given: mode, initialised flag, trims, fine temperature and driver
  are unchanged.  \<open>BME280_SetMode\<close> hands back either the same structure or, on success
  after a write, the structure with only the mode replaced by the requested one.
  With a driver attached that has a read and a write callback every one of these calls
  returns.
\<close>

theorem setters_leave_device_unchanged:
  "(\<forall>r Dev' b'. BME280_SetPOvs Dev v b = Some (r, Dev', b') \<longrightarrow> Dev' = Dev) \<and>
   (\<forall>r Dev' b'. BME280_SetTOvs Dev v b = Some (r, Dev', b') \<longrightarrow> Dev' = Dev) \<and>
   (\<forall>r Dev' b'. BME280_SetHOvs Dev v b = Some (r, Dev', b') \<longrightarrow> Dev' = Dev) \<and>
   (\<forall>r Dev' b'. BME280_SetTStby Dev v b = Some (r, Dev', b') \<longrightarrow> Dev' = Dev) \<and>
   (\<forall>r Dev' b'. BME280_SetFilter Dev v b = Some (r, Dev', b') \<longrightarrow> Dev' = Dev) \<and>
   (\<forall>r Dev' b'. BME280_Enable3WireSPI Dev b = Some (r, Dev', b') \<longrightarrow> Dev' = Dev) \<and>
   (\<forall>r Dev' b'. BME280_Disable3WireSPI Dev b = Some (r, Dev', b') \<longrightarrow> Dev' = Dev) \<and>
   (\<forall>r Dev' b'. BME280_SetMode Dev v b = Some (r, Dev', b') \<longrightarrow>
      Dev' = Dev \<or> (r = BME280_OK \<and> Dev' = Dev\<lparr>mode := v\<rparr>)) \<and>
   ((\<exists>drv. driver Dev = Some drv \<and> read drv \<noteq> None \<and> write_fn drv \<noteq> None) \<longrightarrow>
      (\<exists>r Dev' b'. BME280_SetPOvs Dev v b = Some (r, Dev', b')) \<and>
      (\<exists>r Dev' b'. BME280_SetTOvs Dev v b = Some (r, Dev', b')) \<and>
      (\<exists>r Dev' b'. BME280_SetHOvs Dev v b = Some (r, Dev', b')) \<and>
      (\<exists>r Dev' b'. BME280_SetTStby Dev v b = Some (r, Dev', b')) \<and>
      (\<exists>r Dev' b'. BME280_SetFilter Dev v b = Some (r, Dev', b')) \<and>
      (\<exists>r Dev' b'. BME280_Enable3WireSPI Dev b = Some (r, Dev', b')) \<and>
      (\<exists>r Dev' b'. BME280_Disable3WireSPI Dev b = Some (r, Dev', b')) \<and>
      (\<exists>r Dev' b'. BME280_SetMode Dev v b = Some (r, Dev', b')))"
proof -
  have A: "(\<forall>r Dev' b'. BME280_SetPOvs Dev v b = Some (r, Dev', b') \<longrightarrow> Dev' = Dev) \<and>
   (\<forall>r Dev' b'. BME280_SetTOvs Dev v b = Some (r, Dev', b') \<longrightarrow> Dev' = Dev) \<and>
   (\<forall>r Dev' b'. BME280_SetHOvs Dev v b = Some (r, Dev', b') \<longrightarrow> Dev' = Dev) \<and>
   (\<forall>r Dev' b'. BME280_SetTStby Dev v b = Some (r, Dev', b') \<longrightarrow> Dev' = Dev) \<and>
   (\<forall>r Dev' b'. BME280_SetFilter Dev v b = Some (r, Dev', b') \<longrightarrow> Dev' = Dev) \<and>
   (\<forall>r Dev' b'. BME280_Enable3WireSPI Dev b = Some (r, Dev', b') \<longrightarrow> Dev' = Dev) \<and>
   (\<forall>r Dev' b'. BME280_Disable3WireSPI Dev b = Some (r, Dev', b') \<longrightarrow> Dev' = Dev)"
    using setter_frames [of Dev v b] spi_setter_frames [of Dev b] by blast
  have B: "\<forall>r Dev' b'. BME280_SetMode Dev v b = Some (r, Dev', b') \<longrightarrow>
      Dev' = Dev \<or> (r = BME280_OK \<and> Dev' = Dev\<lparr>mode := v\<rparr>)"
    using SetMode_frame [of Dev v b] by blast
  have C: "(\<exists>drv. driver Dev = Some drv \<and> read drv \<noteq> None \<and> write_fn drv \<noteq> None) \<longrightarrow>
      (\<exists>r Dev' b'. BME280_SetPOvs Dev v b = Some (r, Dev', b')) \<and>
      (\<exists>r Dev' b'. BME280_SetTOvs Dev v b = Some (r, Dev', b')) \<and>
      (\<exists>r Dev' b'. BME280_SetHOvs Dev v b = Some (r, Dev', b')) \<and>
      (\<exists>r Dev' b'. BME280_SetTStby Dev v b = Some (r, Dev', b')) \<and>
      (\<exists>r Dev' b'. BME280_SetFilter Dev v b = Some (r, Dev', b')) \<and>
      (\<exists>r Dev' b'. BME280_Enable3WireSPI Dev b = Some (r, Dev', b')) \<and>
      (\<exists>r Dev' b'. BME280_Disable3WireSPI Dev b = Some (r, Dev', b')) \<and>
      (\<exists>r Dev' b'. BME280_SetMode Dev v b = Some (r, Dev', b'))"
  proof (intro impI)
    assume "\<exists>drv. driver Dev = Some drv \<and> read drv \<noteq> None \<and> write_fn drv \<noteq> None"
    then obtain drv rd wr where
      cb: "driver Dev = Some drv" "read drv = Some rd" "write_fn drv = Some wr" by auto
    show "(\<exists>r Dev' b'. BME280_SetPOvs Dev v b = Some (r, Dev', b')) \<and>
      (\<exists>r Dev' b'. BME280_SetTOvs Dev v b = Some (r, Dev', b')) \<and>
      (\<exists>r Dev' b'. BME280_SetHOvs Dev v b = Some (r, Dev', b')) \<and>
      (\<exists>r Dev' b'. BME280_SetTStby Dev v b = Some (r, Dev', b')) \<and>
      (\<exists>r Dev' b'. BME280_SetFilter Dev v b = Some (r, Dev', b')) \<and>
      (\<exists>r Dev' b'. BME280_Enable3WireSPI Dev b = Some (r, Dev', b')) \<and>
      (\<exists>r Dev' b'. BME280_Disable3WireSPI Dev b = Some (r, Dev', b')) \<and>
      (\<exists>r Dev' b'. BME280_SetMode Dev v b = Some (r, Dev', b'))"
      by (intro conjI setters_return [OF cb])
  qed
  from A B C show ?thesis by simp
qed

text \<open>The theorem on the register file: setting the pressure oversampling of an
  initialised device succeeds with a write and returns the device as it was; setting
  the mode to normal succeeds and returns the device with the new mode.\<close>

theorem setters_leave_device_unchanged_witness:
  "driver ready_dev = Some regfile_driver \<and> read regfile_driver \<noteq> None \<and>
   write_fn regfile_driver \<noteq> None \<and>
   BME280_SetPOvs ready_dev 3 idle_bus =
     Some (BME280_OK, ready_dev,
           \<lparr>env = zero_regs(0xF4 := 0x0C), trace = [Bus_read 0xF4 1, Bus_write 0xF4 0x0C]\<rparr>) \<and>
   BME280_SetMode ready_dev 3 idle_bus =
     Some (BME280_OK, ready_dev\<lparr>mode := 3\<rparr>,
           \<lparr>env = zero_regs(0xF4 := 0x03), trace = [Bus_read 0xF4 1, Bus_write 0xF4 0x03]\<rparr>) \<and>
   mode ready_dev \<noteq> 3"
proof -
  have P: "BME280_SetPOvs ready_dev 3 idle_bus =
     Some (BME280_OK, ready_dev,
           \<lparr>env = zero_regs(0xF4 := 0x0C), trace = [Bus_read 0xF4 1, Bus_write 0xF4 0x0C]\<rparr>)"
    by (simp add: BME280_SetPOvs_def bme280_is_sleep_mode_def drv_read_def drv_write_def
        example_defs enum_defs ret_defs BME280_CTRL_MEAS_ADDR_def Let_def)
  have M: "BME280_SetMode ready_dev 3 idle_bus =
     Some (BME280_OK, ready_dev\<lparr>mode := 3\<rparr>,
           \<lparr>env = zero_regs(0xF4 := 0x03), trace = [Bus_read 0xF4 1, Bus_write 0xF4 0x03]\<rparr>)"
    by (simp add: BME280_SetMode_def bme280_is_sleep_mode_def drv_read_def drv_write_def
        example_defs enum_defs ret_defs BME280_CTRL_MEAS_ADDR_def Let_def)
  have cb: "driver ready_dev = Some regfile_driver \<and> read regfile_driver \<noteq> None \<and>
            write_fn regfile_driver \<noteq> None"
    by (simp add: example_defs)
  have m: "mode ready_dev \<noteq> 3" by (simp add: example_defs enum_defs)
  from setters_leave_device_unchanged [of ready_dev 3 idle_bus] cb P M m
  show ?thesis by blast
qed

section \<open>Humidity compensation\<close>

lemma clamp_range:
  fixes v :: s32
  defines "c \<equiv> (if 419430400 <s (if v <s 0 then 0 else v) then 419430400
                 else (if v <s 0 then 0 else v))"
  shows "0 \<le> sint c \<and> sint c \<le> 419430400"
  by (auto simp: c_def word_sless_alt)

lemma div_s_4096_bound:
  fixes c :: s32
  assumes "0 \<le> sint c" and "sint c \<le> 419430400"
  shows "unat (div_s c 4096) = nat (sint c div 4096) \<and> unat (div_s c 4096) \<le> 102400"
proof -
  have q: "sint c sdiv sint (4096 :: s32) = sint c div 4096"
    using assms(1) by (simp add: signed_divide_int_def sgn_if)
  have lo: "0 \<le> sint c div 4096" using assms(1) by simp
  have hi: "sint c div 4096 \<le> 102400" using assms(2) by simp
  have u: "unat (word_of_int (sint c div 4096) :: s32) = nat (sint c div 4096)"
    using lo hi by (simp add: unat_eq_nat_uint uint_word_of_int take_bit_int_eq_self)
  show ?thesis using q u lo hi by (simp add: div_s_def)
qed

text \<open>
  Claim C7.  For every device (calibration data and fine temperature) and every raw
  humidity word, the value of \<open>var5\<close> after the two clamping assignments lies in
  \<open>[0, 419430400]\<close>, the returned humidity is that value divided by 4096, and so the
  returned unsigned value is at most \<open>419430400 / 1024\<close> (it is in fact at most
  \<open>419430400 / 4096 = 102400\<close>); being unsigned it is never negative.
\<close>

theorem humidity_in_range:
  "0 \<le> sint (h_var5_clamped Dev adc_H) \<and> sint (h_var5_clamped Dev adc_H) \<le> 419430400 \<and>
   bme280_compensate_h_u32t Dev adc_H = div_s (h_var5_clamped Dev adc_H) 4096 \<and>
   unat (bme280_compensate_h_u32t Dev adc_H) \<le> 419430400 div 4096 \<and>
   unat (bme280_compensate_h_u32t Dev adc_H) \<le> 419430400 div 1024"
proof -
  have r: "0 \<le> sint (h_var5_clamped Dev adc_H) \<and> sint (h_var5_clamped Dev adc_H) \<le> 419430400"
    unfolding h_var5_clamped_def Let_def by (rule clamp_range)
  have e: "bme280_compensate_h_u32t Dev adc_H = div_s (h_var5_clamped Dev adc_H) 4096"
    unfolding bme280_compensate_h_u32t_def h_var5_clamped_def Let_def by (rule refl)
  have "unat (div_s (h_var5_clamped Dev adc_H) 4096) \<le> 102400"
    using div_s_4096_bound r by blast
  with r e show ?thesis by simp
qed

section \<open>Pressure compensation\<close>

lemma p64_guard:
  "bme280_compensate_p_u32t Dev adc_P =
     (if p64_var1 Dev \<noteq> 0 then
        (case checked_div_s
                (((scast (1048576 - adc_P) * 2147483648)
                  - ((scast (t_fine Dev) - 128000) * (scast (t_fine Dev) - 128000)
                       * scast (dig_P6 (trimm Dev))
                     + (((scast (t_fine Dev) - 128000) * scast (dig_P5 (trimm Dev))) * 131072)
                     + (scast (dig_P4 (trimm Dev)) * 34359738368))) * 3125)
                (p64_var1 Dev) of
           None \<Rightarrow> None
         | Some var4 \<Rightarrow>
             Some (ucast (div_s (div_s
               (div_s (var4
                  + div_s (scast (dig_P9 (trimm Dev)) * div_s var4 8192 * div_s var4 8192) 33554432
                  + div_s (scast (dig_P8 (trimm Dev)) * var4) 524288) 256
                + (scast (dig_P7 (trimm Dev)) * 16)) 2 * 100) 128)))
      else Some 0)"
  unfolding bme280_compensate_p_u32t_def p64_var1_def Let_def by (rule refl)

lemma p32_guard:
  "p32_var1 Dev = 0 \<Longrightarrow> bme280_compensate_p_u32t_32bit Dev adc_P = Some 0"
  unfolding bme280_compensate_p_u32t_32bit_def p32_var1_def Let_def by simp

lemma p32_returns:
  "\<exists>p. bme280_compensate_p_u32t_32bit Dev adc_P = Some p"
  unfolding bme280_compensate_p_u32t_32bit_def Let_def checked_div_u_def
  by (simp split: option.splits)

text \<open>
  Claim C8.  On both paths the function returns a value for every device and every raw
  pressure word: the outcome is never a division by zero.  On both paths, when the
  value of \<open>var1\<close> that the guard tests is zero, the result is exactly 0.
\<close>

theorem pressure_no_division_by_zero:
  "(\<exists>p. bme280_compensate_p_u32t Dev adc_P = Some p) \<and>
   (p64_var1 Dev = 0 \<longrightarrow> bme280_compensate_p_u32t Dev adc_P = Some 0) \<and>
   (\<exists>p. bme280_compensate_p_u32t_32bit Dev adc_P = Some p) \<and>
   (p32_var1 Dev = 0 \<longrightarrow> bme280_compensate_p_u32t_32bit Dev adc_P = Some 0)"
proof -
  have "\<exists>p. bme280_compensate_p_u32t Dev adc_P = Some p"
    by (simp add: p64_guard checked_div_s_def)
  moreover have "p64_var1 Dev = 0 \<longrightarrow> bme280_compensate_p_u32t Dev adc_P = Some 0"
    by (simp add: p64_guard)
  ultimately show ?thesis using p32_returns p32_guard by blast
qed

text \<open>The theorem on the zeroed device: \<open>dig_P1\<close> is 0, so \<open>var1\<close> is 0 on both paths.\<close>

theorem pressure_no_division_by_zero_witness:
  "p64_var1 blank_dev = 0 \<and> bme280_compensate_p_u32t blank_dev 415148 = Some 0 \<and>
   p32_var1 blank_dev = 0 \<and> bme280_compensate_p_u32t_32bit blank_dev 415148 = Some 0"
proof -
  have a: "p64_var1 blank_dev = 0"
    by (simp add: p64_var1_def blank_dev_def parse_trimm_def CAT_UI16T_def CAT_I16T_def
        div_s_def Let_def)
  have b: "p32_var1 blank_dev = 0"
    by (simp add: p32_var1_def blank_dev_def parse_trimm_def CAT_UI16T_def CAT_I16T_def
        Let_def)
  from pressure_no_division_by_zero [of blank_dev 415148] a b show ?thesis by blast
qed

section \<open>Calibration layout\<close>

lemma uint_byte_lt: "uint (x :: u8) < 256"
  using uint_bounded [of x] by simp

lemma take_bit_16_byte: "take_bit 16 (uint (x :: u8)) = uint x"
  using uint_byte_lt [of x] by (simp add: take_bit_int_eq_self)

lemma take_bit_16_byte_shift8: "take_bit 16 (push_bit 8 (uint (x :: u8))) = push_bit 8 (uint x)"
  using uint_byte_lt [of x] by (simp add: take_bit_int_eq_self push_bit_eq_mult)

lemma take_bit_16_byte_shift4: "take_bit 16 (push_bit 4 (uint (x :: u8))) = push_bit 4 (uint x)"
  using uint_byte_lt [of x] by (simp add: take_bit_int_eq_self push_bit_eq_mult)

lemma uint_CAT_UI16T: "uint (CAT_UI16T m l) = push_bit 8 (uint m) OR uint l"
  by (simp add: CAT_UI16T_def unsigned_or_eq unsigned_push_bit_eq unsigned_ucast_eq
      take_bit_16_byte take_bit_16_byte_shift8)

lemma sint_CAT_I16T:
  "sint (CAT_I16T m l) = signed_take_bit 15 (push_bit 8 (uint m) OR uint l)"
proof -
  have "uint (CAT_I16T m l) = uint (CAT_UI16T m l)"
    by (simp add: CAT_I16T_def CAT_UI16T_def)
  then show ?thesis by (simp add: sint_uint uint_CAT_UI16T)
qed

lemma or_lt_4096:
  fixes x y :: int
  assumes "0 \<le> x" "x < 4096" "0 \<le> y" "y < 4096"
  shows "0 \<le> x OR y \<and> x OR y < 4096"
  using assms OR_upper [of x 12 y] by simp

lemma signed_take_bit_15_small:
  fixes v :: int
  assumes "0 \<le> v" and "v < 4096"
  shows "signed_take_bit 15 v = v"
  by (rule signed_take_bit_int_eq_self) (use assms in simp_all)

lemma sint_H4:
  "sint (push_bit 4 (ucast (a :: u8)) OR (ucast (c :: u8) AND 0x0F) :: s16)
     = push_bit 4 (uint a) OR (uint c AND 0x0F)"
proof -
  let ?v = "push_bit 4 (uint a) OR (uint c AND 0x0F)"
  have u: "uint (push_bit 4 (ucast a) OR (ucast c AND 0x0F) :: s16) = ?v"
    by (simp add: unsigned_or_eq unsigned_and_eq unsigned_push_bit_eq unsigned_ucast_eq
        take_bit_16_byte take_bit_16_byte_shift4)
  have 1: "0 \<le> push_bit 4 (uint a) \<and> push_bit 4 (uint a) < 4096"
    using uint_byte_lt [of a] by (simp add: push_bit_eq_mult)
  have 2: "0 \<le> uint c AND 0x0F \<and> uint c AND 0x0F < 4096"
    using AND_upper2 [of 15 "uint c"] by (simp add: and.commute)
  have "0 \<le> ?v \<and> ?v < 4096" using or_lt_4096 1 2 by blast
  then have "signed_take_bit 15 ?v = ?v"
    using signed_take_bit_15_small by blast
  then show ?thesis by (simp add: sint_uint u)
qed

lemma sint_H5:
  "sint (push_bit 4 (ucast (a :: u8)) OR drop_bit 4 (ucast (c :: u8)) :: s16)
     = push_bit 4 (uint a) OR drop_bit 4 (uint c)"
proof -
  let ?v = "push_bit 4 (uint a) OR drop_bit 4 (uint c)"
  have u: "uint (push_bit 4 (ucast a) OR drop_bit 4 (ucast c) :: s16) = ?v"
    by (simp add: unsigned_or_eq unsigned_drop_bit_eq unsigned_push_bit_eq unsigned_ucast_eq
        take_bit_16_byte take_bit_16_byte_shift4)
  have 1: "0 \<le> push_bit 4 (uint a) \<and> push_bit 4 (uint a) < 4096"
    using uint_byte_lt [of a] by (simp add: push_bit_eq_mult)
  have 2: "0 \<le> drop_bit 4 (uint c) \<and> drop_bit 4 (uint c) < 4096"
  proof -
    have "uint c div 16 \<le> 255 div 16"
      using uint_byte_lt [of c] by (intro zdiv_mono1) simp_all
    moreover have "0 \<le> uint c div 16" by (simp add: pos_imp_zdiv_nonneg_iff)
    ultimately show ?thesis by (simp add: drop_bit_eq_div)
  qed
  have "0 \<le> ?v \<and> ?v < 4096" using or_lt_4096 1 2 by blast
  then have "signed_take_bit 15 ?v = ?v"
    using signed_take_bit_15_small by blast
  then show ?thesis by (simp add: sint_uint u)
qed

lemma calib_buffer:
  "buf_store (buf_store (\<lambda>i. 0) 0 BME280_CALIB_DATA1_LEN rx1) 25 BME280_CALIB_DATA2_LEN rx2 i =
     (if i < 25 then rx1 i else if i < 32 then rx2 (i - 25) else 0)"
  by (simp add: buf_store_def BME280_CALIB_DATA1_LEN_def BME280_CALIB_DATA2_LEN_def)

text \<open>
  Claim C5.  Let both calibration reads succeed, the first leaving the bytes \<open>rx1\<close> (25 of
  them) and the second the bytes \<open>rx2\<close> (7 of them), so that byte \<open>i\<close> of the 32-byte
  buffer is \<open>rx1 i\<close> for \<open>i < 25\<close> and \<open>rx2 (i - 25)\<close> from there on.  Then the parser
  succeeds and stores, as numbers: \<open>H4 = (byte 28 << 4) | (byte 29 & 0x0F)\<close> and
  \<open>H5 = (byte 30 << 4) | (byte 29 >> 4)\<close>; for the temperature and pressure trims
  \<open>(msb << 8) | lsb\<close>, read as an unsigned 16-bit number for \<open>T1\<close> and \<open>P1\<close> and as a
  signed 16-bit number (two's complement) for the others.
\<close>

theorem calibration_layout:
  assumes "driver Dev = Some drv" and "read drv = Some rd"
    and "rd BME280_CALIB_DATA1_ADDR BME280_CALIB_DATA1_LEN (env b) = (BME280_OK, rx1, e1)"
    and "rd BME280_CALIB_DATA2_ADDR BME280_CALIB_DATA2_LEN e1 = (BME280_OK, rx2, e2)"
  shows
    "\<exists>Dev' b'. bme280_read_compensation_parameters Dev b = Some (BME280_OK, Dev', b') \<and>
       (let byte = (\<lambda>i. uint (if i < 25 then rx1 i else rx2 (i - 25)));
            cat = (\<lambda>msb lsb. push_bit 8 (byte msb) OR byte lsb);
            T = trimm Dev'
        in
          sint (dig_H4 T) = push_bit 4 (byte 28) OR (byte 29 AND 0x0F) \<and>
          sint (dig_H5 T) = push_bit 4 (byte 30) OR drop_bit 4 (byte 29) \<and>
          uint (dig_T1 T) = cat 1 0 \<and>
          sint (dig_T2 T) = signed_take_bit 15 (cat 3 2) \<and>
          sint (dig_T3 T) = signed_take_bit 15 (cat 5 4) \<and>
          uint (dig_P1 T) = cat 7 6 \<and>
          sint (dig_P2 T) = signed_take_bit 15 (cat 9 8) \<and>
          sint (dig_P3 T) = signed_take_bit 15 (cat 11 10) \<and>
          sint (dig_P4 T) = signed_take_bit 15 (cat 13 12) \<and>
          sint (dig_P5 T) = signed_take_bit 15 (cat 15 14) \<and>
          sint (dig_P6 T) = signed_take_bit 15 (cat 17 16) \<and>
          sint (dig_P7 T) = signed_take_bit 15 (cat 19 18) \<and>
          sint (dig_P8 T) = signed_take_bit 15 (cat 21 20) \<and>
          sint (dig_P9 T) = signed_take_bit 15 (cat 23 22))"
proof -
  let ?buf = "buf_store (buf_store (\<lambda>i. 0) 0 BME280_CALIB_DATA1_LEN rx1) 25
                BME280_CALIB_DATA2_LEN rx2"
  have run: "bme280_read_compensation_parameters Dev b =
      Some (BME280_OK, Dev\<lparr>trimm := parse_trimm ?buf\<rparr>,
            \<lparr>env = e2,
             trace = trace b @ [Bus_read BME280_CALIB_DATA1_ADDR BME280_CALIB_DATA1_LEN,
                                Bus_read BME280_CALIB_DATA2_ADDR BME280_CALIB_DATA2_LEN]\<rparr>)"
    using assms
    by (simp add: bme280_read_compensation_parameters_def drv_read_eq Let_def)
  have fields:
    "sint (dig_H4 (parse_trimm ?buf)) = push_bit 4 (uint (?buf 28)) OR (uint (?buf 29) AND 0x0F)"
    "sint (dig_H5 (parse_trimm ?buf)) = push_bit 4 (uint (?buf 30)) OR drop_bit 4 (uint (?buf 29))"
    "uint (dig_T1 (parse_trimm ?buf)) = push_bit 8 (uint (?buf 1)) OR uint (?buf 0)"
    "sint (dig_T2 (parse_trimm ?buf)) = signed_take_bit 15 (push_bit 8 (uint (?buf 3)) OR uint (?buf 2))"
    "sint (dig_T3 (parse_trimm ?buf)) = signed_take_bit 15 (push_bit 8 (uint (?buf 5)) OR uint (?buf 4))"
    "uint (dig_P1 (parse_trimm ?buf)) = push_bit 8 (uint (?buf 7)) OR uint (?buf 6)"
    "sint (dig_P2 (parse_trimm ?buf)) = signed_take_bit 15 (push_bit 8 (uint (?buf 9)) OR uint (?buf 8))"
    "sint (dig_P3 (parse_trimm ?buf)) = signed_take_bit 15 (push_bit 8 (uint (?buf 11)) OR uint (?buf 10))"
    "sint (dig_P4 (parse_trimm ?buf)) = signed_take_bit 15 (push_bit 8 (uint (?buf 13)) OR uint (?buf 12))"
    "sint (dig_P5 (parse_trimm ?buf)) = signed_take_bit 15 (push_bit 8 (uint (?buf 15)) OR uint (?buf 14))"
    "sint (dig_P6 (parse_trimm ?buf)) = signed_take_bit 15 (push_bit 8 (uint (?buf 17)) OR uint (?buf 16))"
    "sint (dig_P7 (parse_trimm ?buf)) = signed_take_bit 15 (push_bit 8 (uint (?buf 19)) OR uint (?buf 18))"
    "sint (dig_P8 (parse_trimm ?buf)) = signed_take_bit 15 (push_bit 8 (uint (?buf 21)) OR uint (?buf 20))"
    "sint (dig_P9 (parse_trimm ?buf)) = signed_take_bit 15 (push_bit 8 (uint (?buf 23)) OR uint (?buf 22))"
    by (simp_all only: parse_trimm_def BME280_calibration_data.simps sint_H4 sint_H5
        uint_CAT_UI16T sint_CAT_I16T)
  show ?thesis
    unfolding run Let_def using fields by (simp add: calib_buffer)
qed


text \<open>The theorem on a register file with calibration bytes: \<open>T1 = 0x6B70\<close>,
  \<open>T3 = 0xFC18\<close> (negative as a signed number), \<open>H4 = 0x14D\<close>, \<open>H5 = 0x032\<close>.\<close>

theorem calibration_layout_witness:
  "driver blank_dev = Some regfile_driver \<and> read regfile_driver = Some regfile_read \<and>
   regfile_read BME280_CALIB_DATA1_ADDR BME280_CALIB_DATA1_LEN calib_regs
     = (BME280_OK, (\<lambda>i. calib_regs (BME280_CALIB_DATA1_ADDR + of_nat i)), calib_regs) \<and>
   regfile_read BME280_CALIB_DATA2_ADDR BME280_CALIB_DATA2_LEN calib_regs
     = (BME280_OK, (\<lambda>i. calib_regs (BME280_CALIB_DATA2_ADDR + of_nat i)), calib_regs) \<and>
   (\<exists>Dev' b'.
      bme280_read_compensation_parameters blank_dev \<lparr>env = calib_regs, trace = []\<rparr>
        = Some (BME280_OK, Dev', b') \<and>
      sint (dig_H4 (trimm Dev')) = 333 \<and> sint (dig_H5 (trimm Dev')) = 50 \<and>
      uint (dig_T1 (trimm Dev')) = 27504 \<and> sint (dig_T2 (trimm Dev')) = 26435 \<and>
      sint (dig_T3 (trimm Dev')) = - 1000)"
proof -
  have dr: "driver blank_dev = Some regfile_driver"
    and r: "read regfile_driver = Some regfile_read"
    by (simp_all add: blank_dev_def regfile_driver_def)
  have 1: "regfile_read BME280_CALIB_DATA1_ADDR BME280_CALIB_DATA1_LEN
             (env \<lparr>env = calib_regs, trace = []\<rparr>)
     = (BME280_OK, (\<lambda>i. calib_regs (BME280_CALIB_DATA1_ADDR + of_nat i)), calib_regs)"
    by (simp add: regfile_read_def BME280_OK_def)
  have 2: "regfile_read BME280_CALIB_DATA2_ADDR BME280_CALIB_DATA2_LEN calib_regs
     = (BME280_OK, (\<lambda>i. calib_regs (BME280_CALIB_DATA2_ADDR + of_nat i)), calib_regs)"
    by (simp add: regfile_read_def BME280_OK_def)
  have v: "calib_regs 0x88 = 0x70" "calib_regs 0x89 = 0x6B" "calib_regs 0x8A = 0x43"
    "calib_regs 0x8B = 0x67" "calib_regs 0x8C = 0x18" "calib_regs 0x8D = 0xFC"
    "calib_regs 0xE4 = 0x14" "calib_regs 0xE5 = 0x2D" "calib_regs 0xE6 = 0x03"
    by (simp_all add: calib_regs_def)
  have n: "push_bit 4 (20 :: int) OR (45 AND 15) = 333" "push_bit 4 (3 :: int) OR drop_bit 4 45 = 50"
    "push_bit 8 (107 :: int) OR 112 = 27504"
    "signed_take_bit 15 (push_bit 8 (103 :: int) OR 67) = 26435"
    "signed_take_bit 15 (push_bit 8 (252 :: int) OR 24) = - 1000"
    by (simp_all add: push_bit_eq_mult drop_bit_eq_div)
  from calibration_layout [where Dev = blank_dev and drv = regfile_driver and rd = regfile_read
      and b = "\<lparr>env = calib_regs, trace = []\<rparr>"
      and ?rx1.0 = "\<lambda>i. calib_regs (BME280_CALIB_DATA1_ADDR + of_nat i)"
      and ?rx2.0 = "\<lambda>i. calib_regs (BME280_CALIB_DATA2_ADDR + of_nat i)"
      and ?e1.0 = calib_regs and ?e2.0 = calib_regs, OF dr r 1 2]
  obtain Dev' b' where
    R: "bme280_read_compensation_parameters blank_dev \<lparr>env = calib_regs, trace = []\<rparr>
          = Some (BME280_OK, Dev', b')"
    and H4: "sint (dig_H4 (trimm Dev')) = push_bit 4 (uint (calib_regs (BME280_CALIB_DATA2_ADDR + 3)))
               OR (uint (calib_regs (BME280_CALIB_DATA2_ADDR + 4)) AND 0x0F)"
    and H5: "sint (dig_H5 (trimm Dev')) = push_bit 4 (uint (calib_regs (BME280_CALIB_DATA2_ADDR + 5)))
               OR drop_bit 4 (uint (calib_regs (BME280_CALIB_DATA2_ADDR + 4)))"
    and T1: "uint (dig_T1 (trimm Dev')) = push_bit 8 (uint (calib_regs (BME280_CALIB_DATA1_ADDR + 1)))
               OR uint (calib_regs (BME280_CALIB_DATA1_ADDR + 0))"
    and T2: "sint (dig_T2 (trimm Dev')) = signed_take_bit 15
               (push_bit 8 (uint (calib_regs (BME280_CALIB_DATA1_ADDR + 3)))
                OR uint (calib_regs (BME280_CALIB_DATA1_ADDR + 2)))"
    and T3: "sint (dig_T3 (trimm Dev')) = signed_take_bit 15
               (push_bit 8 (uint (calib_regs (BME280_CALIB_DATA1_ADDR + 5)))
                OR uint (calib_regs (BME280_CALIB_DATA1_ADDR + 4)))"
    by (auto simp: Let_def)
  have "sint (dig_H4 (trimm Dev')) = 333" "sint (dig_H5 (trimm Dev')) = 50"
    "uint (dig_T1 (trimm Dev')) = 27504" "sint (dig_T2 (trimm Dev')) = 26435"
    "sint (dig_T3 (trimm Dev')) = - 1000"
    using H4 H5 T1 T2 T3
    by (simp_all add: BME280_CALIB_DATA1_ADDR_def BME280_CALIB_DATA2_ADDR_def v n)
  with R dr r 1 2 show ?thesis by auto
qed

section \<open>Forced-mode delay\<close>

lemma unat_osrs_to_oversampling:
  "unat (bme280_osrs_to_oversampling c) = osrs_multiplier (unat c)"
proof -
  have a: "c \<le> 2 \<longleftrightarrow> unat c \<le> 2" by (simp add: word_le_nat_alt)
  have b: "3 = c \<longleftrightarrow> unat c = 3" using word_unat_eq_iff [of c 3] by auto
  have d: "4 = c \<longleftrightarrow> unat c = 4" using word_unat_eq_iff [of c 4] by auto
  show ?thesis
    unfolding bme280_osrs_to_oversampling_def osrs_multiplier_def BME280_OVERSAMPLING_X2_def
      BME280_OVERSAMPLING_X4_def BME280_OVERSAMPLING_X8_def a b d
    by simp
qed

lemma osrs_multiplier_le: "osrs_multiplier n \<le> 16"
  by (simp add: osrs_multiplier_def)

lemma delay_value:
  fixes t p h :: u8
  assumes "unat t \<le> 16" "unat p \<le> 16" "unat h \<le> 16"
  shows "unat (ucast (((125 + (230 * ucast t) + ((230 * ucast p) + 58)
                        + ((230 * ucast h) + 58)) div 100) + 1 :: u32) :: u8)
         = (125 + 230 * unat t + 230 * unat p + 58 + 230 * unat h + 58) div 100 + 1"
proof -
  define n where "n = 125 + 230 * unat t + (230 * unat p + 58) + (230 * unat h + 58)"
  have n: "n \<le> 11281" using assms by (simp add: n_def)
  have e: "(125 + (230 * ucast t) + ((230 * ucast p) + 58) + ((230 * ucast h) + 58) :: u32)
             = of_nat n"
    by (simp add: n_def)
  have s: "unat (of_nat n :: u32) = n"
    using n by (simp add: unat_of_nat)
  have q: "unat (of_nat n div 100 :: u32) = n div 100"
    by (simp add: unat_div_distrib s)
  have q1: "n div 100 \<le> 112" using n by simp
  have r: "unat (of_nat n div 100 + 1 :: u32) = n div 100 + 1"
    using q q1 unat_add_lem [of "of_nat n div 100 :: u32" 1] by simp
  have "unat (ucast (of_nat n div 100 + 1 :: u32) :: u8) = n div 100 + 1"
    using q1 by (simp add: unsigned_ucast_eq r take_bit_nat_eq_self)
  then show ?thesis
    unfolding e by (simp add: n_def add.assoc)
qed

lemma spec_forced_delay_eq:
  "spec_forced_delay T P H = (125 + 230 * T + 230 * P + 58 + 230 * H + 58) div 100 + 2"
proof -
  define n where "n = 125 + 230 * T + 230 * P + 58 + 230 * H + 58"
  have m: "n mod 10 = 1" unfolding n_def by presburger
  have nd: "\<not> 100 dvd int n"
  proof
    assume "100 dvd int n"
    then have "10 dvd int n" by (rule dvd_trans [rotated]) simp
    then have "n mod 10 = 0" by presburger
    with m show False by simp
  qed
  have r: "(125 + 230 * real T + 230 * real P + 58 + 230 * real H + 58) / 100
             = real_of_int (int n) / real_of_int 100"
    by (simp add: n_def)
  have "\<lceil>real_of_int (int n) / real_of_int 100\<rceil> = - (- int n div 100)"
    by (rule ceiling_divide_eq_div)
  also have "\<dots> = int n div 100 + 1"
    using nd by (simp add: zdiv_zminus1_eq_if dvd_eq_mod_eq_0)
  finally have "nat \<lceil>real_of_int (int n) / real_of_int 100\<rceil> = n div 100 + 1"
    by (simp add: nat_add_distrib nat_div_distrib flip: zdiv_int)
  then show ?thesis
    unfolding spec_forced_delay_def r by (simp add: n_def)
qed

text \<open>
  Claim C6, as amended.  Let the read of the three registers succeed with neither busy bit
  set and the mode field zero, and let the driver have a write callback.  With \<open>T\<close>,
  \<open>P\<close>, \<open>H\<close> the multipliers that the table assigns to the three oversampling codes
  read, \<open>bme280_set_forced_mode\<close> returns and the delay it stores is
  \<open>floor((125 + 230 T + 230 P + 58 + 230 H + 58) / 100) + 1\<close> milliseconds.  The sum
  is never a multiple of 100, so this is the ceiling of the quotient, and it is one
  less than the value of the specification's formula (ceiling plus one).
\<close>

theorem forced_mode_delay:
  assumes "driver Dev = Some drv" and "read drv = Some rd" and "write_fn drv = Some wr"
    and "rd BME280_CTRL_HUM_ADDR 3 (env b) = (BME280_OK, buff, e1)"
    and "buff 1 AND 0x09 = 0" and "buff 2 AND 0x03 = 0"
  shows
    "(let T = osrs_multiplier (unat (drop_bit 5 (buff 2) AND 0x07));
          P = osrs_multiplier (unat (drop_bit 2 (buff 2) AND 0x07));
          H = osrs_multiplier (unat (buff 0 AND 0x07))
      in
        \<exists>res d Dev' b'. bme280_set_forced_mode Dev d0 b = Some (res, d, Dev', b') \<and>
          unat d = (125 + 230 * T + 230 * P + 58 + 230 * H + 58) div 100 + 1 \<and>
          unat d + 1 = spec_forced_delay T P H)"
proof -
  define t where "t = bme280_osrs_to_oversampling (drop_bit 5 (buff 2) AND 0x07)"
  define p where "p = bme280_osrs_to_oversampling (drop_bit 2 (buff 2) AND 0x07)"
  define h where "h = bme280_osrs_to_oversampling (buff 0 AND 0x07)"
  define d :: u8 where "d = ucast (((125 + (230 * ucast t) + ((230 * ucast p) + 58)
                        + ((230 * ucast h) + 58)) div 100) + 1 :: u32)"
  have le: "unat t \<le> 16" "unat p \<le> 16" "unat h \<le> 16"
    by (simp_all add: t_def p_def h_def unat_osrs_to_oversampling osrs_multiplier_le)
  have dv: "unat d = (125 + 230 * unat t + 230 * unat p + 58 + 230 * unat h + 58) div 100 + 1"
    unfolding d_def by (rule delay_value [OF le])
  have run: "\<exists>res b'. bme280_set_forced_mode Dev d0 b = Some (res, d, Dev, b')"
    using assms
    by (simp add: bme280_set_forced_mode_def drv_read_eq drv_write_eq Let_def
        BME280_SLEEPMODE_def d_def t_def p_def h_def)
  show ?thesis
    unfolding Let_def spec_forced_delay_eq
    using run dv
    by (auto simp: t_def p_def h_def unat_osrs_to_oversampling)
qed

text \<open>The theorem on the sleeping sensor with every oversampling x1: the delay is 10.\<close>

theorem forced_mode_delay_witness:
  "driver ready_dev = Some regfile_driver \<and> read regfile_driver = Some regfile_read \<and>
   write_fn regfile_driver = Some regfile_write \<and>
   regfile_read BME280_CTRL_HUM_ADDR 3 x1_regs
     = (BME280_OK, (\<lambda>i. x1_regs (BME280_CTRL_HUM_ADDR + of_nat i)), x1_regs) \<and>
   x1_regs (BME280_CTRL_HUM_ADDR + 1) AND 0x09 = 0 \<and>
   x1_regs (BME280_CTRL_HUM_ADDR + 2) AND 0x03 = 0 \<and>
   (\<exists>res d Dev' b'.
      bme280_set_forced_mode ready_dev 0 \<lparr>env = x1_regs, trace = []\<rparr> = Some (res, d, Dev', b') \<and>
      unat d = 10)"
proof -
  have dr: "driver ready_dev = Some regfile_driver"
    and r: "read regfile_driver = Some regfile_read"
    and w: "write_fn regfile_driver = Some regfile_write"
    by (simp_all add: example_defs)
  have 1: "regfile_read BME280_CTRL_HUM_ADDR 3 (env \<lparr>env = x1_regs, trace = []\<rparr>)
     = (BME280_OK, (\<lambda>i. x1_regs (BME280_CTRL_HUM_ADDR + of_nat i)), x1_regs)"
    by (simp add: regfile_read_def BME280_OK_def)
  have v: "x1_regs (BME280_CTRL_HUM_ADDR + 0) = 0x01" "x1_regs (BME280_CTRL_HUM_ADDR + 1) = 0"
    "x1_regs (BME280_CTRL_HUM_ADDR + 2) = 0x24"
    by (simp_all add: x1_regs_def zero_regs_def BME280_CTRL_HUM_ADDR_def)
  have 2: "(\<lambda>i. x1_regs (BME280_CTRL_HUM_ADDR + of_nat i)) 1 AND 0x09 = 0"
    and 3: "(\<lambda>i. x1_regs (BME280_CTRL_HUM_ADDR + of_nat i)) 2 AND 0x03 = 0"
    using v by simp_all
  have c: "unat (drop_bit 5 (0x24 :: u8) AND 0x07) = 1" "unat (drop_bit 2 (0x24 :: u8) AND 0x07) = 1"
    "unat ((0x01 :: u8) AND 0x07) = 1"
    by simp_all
  from forced_mode_delay [where Dev = ready_dev and drv = regfile_driver
      and rd = regfile_read and wr = regfile_write
      and b = "\<lparr>env = x1_regs, trace = []\<rparr>"
      and buff = "\<lambda>i. x1_regs (BME280_CTRL_HUM_ADDR + of_nat i)" and ?e1.0 = x1_regs
      and ?d0.0 = 0, OF dr r w 1 2 3]
  have "\<exists>res d Dev' b'.
      bme280_set_forced_mode ready_dev 0 \<lparr>env = x1_regs, trace = []\<rparr> = Some (res, d, Dev', b') \<and>
      unat d = 10"
    using v by (auto simp: Let_def c osrs_multiplier_def)
  with dr r w 1 2 3 show ?thesis by simp
qed

text \<open>
  The claim as stated fails on that sensor.  The three codes are 1, the multipliers are
  1, the sum is 931: the function stores the delay 10, and the formula of the claim
  gives 11.
\<close>

theorem forced_mode_delay_counterexample:
  "bme280_set_forced_mode ready_dev 0 \<lparr>env = x1_regs, trace = []\<rparr> =
     Some (BME280_OK, 10, ready_dev,
           \<lparr>env = x1_regs(0xF4 := 0x25), trace = [Bus_read 0xF2 3, Bus_write 0xF4 0x25]\<rparr>) \<and>
   spec_forced_delay (osrs_multiplier 1) (osrs_multiplier 1) (osrs_multiplier 1) = 11"
proof -
  have "spec_forced_delay (osrs_multiplier 1) (osrs_multiplier 1) (osrs_multiplier 1) = 11"
    by (simp add: spec_forced_delay_def osrs_multiplier_def)
  moreover have "bme280_set_forced_mode ready_dev 0 \<lparr>env = x1_regs, trace = []\<rparr> =
     Some (BME280_OK, 10, ready_dev,
           \<lparr>env = x1_regs(0xF4 := 0x25), trace = [Bus_read 0xF2 3, Bus_write 0xF4 0x25]\<rparr>)"
    by (simp add: bme280_set_forced_mode_def drv_read_def drv_write_def example_defs Let_def
        ret_defs enum_defs BME280_CTRL_HUM_ADDR_def BME280_CTRL_MEAS_ADDR_def
        bme280_osrs_to_oversampling_def)
  ultimately show ?thesis by simp
qed

section \<open>Repeating a setter\<close>

lemma le7_mask: "(v :: u8) \<le> 7 \<Longrightarrow> v AND mask 3 = v"
proof -
  assume "v \<le> 7"
  then have "v < 2 ^ 3" by (simp add: word_less_nat_alt word_le_nat_alt)
  then show ?thesis by (rule less_mask_eq)
qed

lemma mask_consts: "(0xE3 :: u8) = NOT (push_bit 2 (mask 3))" "(0x1F :: u8) = NOT (push_bit 5 (mask 3))"
   "(7 :: u8) = mask 3" "(0xFE :: u8) = NOT 1"
  by (simp_all add: mask_eq_exp_minus_1)

lemma field2: "drop_bit 2 ((c AND NOT (push_bit 2 (mask 3))) OR push_bit 2 (v AND mask 3)) AND mask 3 = (v AND mask 3 :: u8)"
  by (rule bit_word_eqI) (auto simp: bit_simps)

lemma field5: "drop_bit 5 ((c AND NOT (push_bit 5 (mask 3))) OR push_bit 5 (v AND mask 3)) AND mask 3 = (v AND mask 3 :: u8)"
  by (rule bit_word_eqI) (auto simp: bit_simps)

lemma rmw2: "(v :: u8) \<le> 7 \<Longrightarrow> drop_bit 2 ((c AND 0xE3) OR push_bit 2 v) AND 0x07 = v"
  using field2 [of c v] by (simp add: mask_consts le7_mask)

lemma rmw5: "(v :: u8) \<le> 7 \<Longrightarrow> drop_bit 5 ((c AND 0x1F) OR push_bit 5 v) AND 0x07 = v"
  using field5 [of c v] by (simp add: mask_consts le7_mask)

lemma spi_on: "((c AND 0xFE) OR 0x01) AND 0x01 = (1 :: u8)"
  by (rule bit_word_eqI) (auto simp: bit_simps mask_consts)

lemma spi_off: "(c AND 0xFE) AND 0x01 = (0 :: u8)"
  by (rule bit_word_eqI) (auto simp: bit_simps mask_consts)
lemma SetPOvs_regfile:
  assumes "driver Dev = Some regfile_driver" and "initialized Dev \<noteq> not_initialized"
    and "mode Dev = sleep_mode" and "v \<le> BME280_OVERSAMPLING_X16"
  shows "BME280_SetPOvs Dev v b =
     Some (BME280_OK, Dev,
       (if drop_bit 2 (env b BME280_CTRL_MEAS_ADDR) AND 0x07 = v
        then \<lparr>env = env b, trace = trace b @ [Bus_read BME280_CTRL_MEAS_ADDR 1]\<rparr>
        else \<lparr>env = (env b)(BME280_CTRL_MEAS_ADDR := (env b BME280_CTRL_MEAS_ADDR AND 0xE3) OR push_bit 2 v),
              trace = trace b @ [Bus_read BME280_CTRL_MEAS_ADDR 1,
                Bus_write BME280_CTRL_MEAS_ADDR ((env b BME280_CTRL_MEAS_ADDR AND 0xE3) OR push_bit 2 v)]\<rparr>))"
  using assms
  by (auto simp: BME280_SetPOvs_def is_sleep_ok drv_read_def drv_write_def regfile_driver_def
      regfile_read_def regfile_write_def Let_def BME280_OK_def)

lemma SetPOvs_twice:
  assumes "driver Dev = Some regfile_driver" and "initialized Dev \<noteq> not_initialized"
    and "mode Dev = sleep_mode" and "v \<le> BME280_OVERSAMPLING_X16"
  shows "\<exists>b1 b2. BME280_SetPOvs Dev v b = Some (BME280_OK, Dev, b1) \<and>
           BME280_SetPOvs Dev v b1 = Some (BME280_OK, Dev, b2) \<and>
           bus_writes b1 = bus_writes b
             + (if drop_bit 2 (env b BME280_CTRL_MEAS_ADDR) AND 0x07 = v then 0 else 1) \<and>
           bus_writes b2 = bus_writes b1"
proof -
  have v7: "v \<le> 7" using assms(4) by (simp add: enum_defs word_le_nat_alt)
  note first = SetPOvs_regfile [OF assms, of b]
  show ?thesis
  proof (cases "drop_bit 2 (env b BME280_CTRL_MEAS_ADDR) AND 0x07 = v")
    case True
    let ?b1 = "\<lparr>env = env b, trace = trace b @ [Bus_read BME280_CTRL_MEAS_ADDR 1]\<rparr>"
    have 1: "BME280_SetPOvs Dev v b = Some (BME280_OK, Dev, ?b1)"
      using first True by simp
    have 2: "BME280_SetPOvs Dev v ?b1 = Some (BME280_OK, Dev,
        \<lparr>env = env b, trace = trace ?b1 @ [Bus_read BME280_CTRL_MEAS_ADDR 1]\<rparr>)"
      using SetPOvs_regfile [OF assms, of ?b1] True by simp
    show ?thesis
      unfolding 1 using 2 True by (simp add: bus_writes_def)
  next
    case False
    let ?new = "(env b BME280_CTRL_MEAS_ADDR AND 0xE3) OR push_bit 2 v"
    let ?b1 = "\<lparr>env = (env b)(BME280_CTRL_MEAS_ADDR := ?new),
               trace = trace b @ [Bus_read BME280_CTRL_MEAS_ADDR 1, Bus_write BME280_CTRL_MEAS_ADDR ?new]\<rparr>"
    have 1: "BME280_SetPOvs Dev v b = Some (BME280_OK, Dev, ?b1)"
      using first False by simp
    have f: "drop_bit 2 (env ?b1 BME280_CTRL_MEAS_ADDR) AND 0x07 = v"
      using rmw2 [OF v7] by simp
    have 2: "BME280_SetPOvs Dev v ?b1 = Some (BME280_OK, Dev,
        \<lparr>env = env ?b1, trace = trace ?b1 @ [Bus_read BME280_CTRL_MEAS_ADDR 1]\<rparr>)"
      using SetPOvs_regfile [OF assms, of ?b1] f by simp
    show ?thesis
      unfolding 1 using 2 False by (simp add: bus_writes_def)
  qed
qed

lemma SetTOvs_regfile:
  assumes "driver Dev = Some regfile_driver" and "initialized Dev \<noteq> not_initialized"
    and "mode Dev = sleep_mode" and "v \<le> BME280_OVERSAMPLING_X16"
  shows "BME280_SetTOvs Dev v b =
     Some (BME280_OK, Dev,
       (if drop_bit 5 (env b BME280_CTRL_MEAS_ADDR) AND 0x07 = v
        then \<lparr>env = env b, trace = trace b @ [Bus_read BME280_CTRL_MEAS_ADDR 1]\<rparr>
        else \<lparr>env = (env b)(BME280_CTRL_MEAS_ADDR := (env b BME280_CTRL_MEAS_ADDR AND 0x1F) OR push_bit 5 v),
              trace = trace b @ [Bus_read BME280_CTRL_MEAS_ADDR 1,
                Bus_write BME280_CTRL_MEAS_ADDR ((env b BME280_CTRL_MEAS_ADDR AND 0x1F) OR push_bit 5 v)]\<rparr>))"
  using assms
  by (auto simp: BME280_SetTOvs_def is_sleep_ok drv_read_def drv_write_def regfile_driver_def
      regfile_read_def regfile_write_def Let_def BME280_OK_def)

lemma SetTOvs_twice:
  assumes "driver Dev = Some regfile_driver" and "initialized Dev \<noteq> not_initialized"
    and "mode Dev = sleep_mode" and "v \<le> BME280_OVERSAMPLING_X16"
  shows "\<exists>b1 b2. BME280_SetTOvs Dev v b = Some (BME280_OK, Dev, b1) \<and>
           BME280_SetTOvs Dev v b1 = Some (BME280_OK, Dev, b2) \<and>
           bus_writes b1 = bus_writes b
             + (if drop_bit 5 (env b BME280_CTRL_MEAS_ADDR) AND 0x07 = v then 0 else 1) \<and>
           bus_writes b2 = bus_writes b1"
proof -
  have v7: "v \<le> 7" using assms(4) by (simp add: enum_defs word_le_nat_alt)
  note first = SetTOvs_regfile [OF assms, of b]
  show ?thesis
  proof (cases "drop_bit 5 (env b BME280_CTRL_MEAS_ADDR) AND 0x07 = v")
    case True
    let ?b1 = "\<lparr>env = env b, trace = trace b @ [Bus_read BME280_CTRL_MEAS_ADDR 1]\<rparr>"
    have 1: "BME280_SetTOvs Dev v b = Some (BME280_OK, Dev, ?b1)"
      using first True by simp
    have 2: "BME280_SetTOvs Dev v ?b1 = Some (BME280_OK, Dev,
        \<lparr>env = env b, trace = trace ?b1 @ [Bus_read BME280_CTRL_MEAS_ADDR 1]\<rparr>)"
      using SetTOvs_regfile [OF assms, of ?b1] True by simp
    show ?thesis
      unfolding 1 using 2 True by (simp add: bus_writes_def)
  next
    case False
    let ?new = "(env b BME280_CTRL_MEAS_ADDR AND 0x1F) OR push_bit 5 v"
    let ?b1 = "\<lparr>env = (env b)(BME280_CTRL_MEAS_ADDR := ?new),
               trace = trace b @ [Bus_read BME280_CTRL_MEAS_ADDR 1, Bus_write BME280_CTRL_MEAS_ADDR ?new]\<rparr>"
    have 1: "BME280_SetTOvs Dev v b = Some (BME280_OK, Dev, ?b1)"
      using first False by simp
    have f: "drop_bit 5 (env ?b1 BME280_CTRL_MEAS_ADDR) AND 0x07 = v"
      using rmw5 [OF v7] by simp
    have 2: "BME280_SetTOvs Dev v ?b1 = Some (BME280_OK, Dev,
        \<lparr>env = env ?b1, trace = trace ?b1 @ [Bus_read BME280_CTRL_MEAS_ADDR 1]\<rparr>)"
      using SetTOvs_regfile [OF assms, of ?b1] f by simp
    show ?thesis
      unfolding 1 using 2 False by (simp add: bus_writes_def)
  qed
qed

lemma SetTStby_regfile:
  assumes "driver Dev = Some regfile_driver" and "initialized Dev \<noteq> not_initialized"
    and "mode Dev = sleep_mode" and "v \<le> BME280_STBY_20MS"
  shows "BME280_SetTStby Dev v b =
     Some (BME280_OK, Dev,
       (if drop_bit 5 (env b BME280_CONFIG_ADDR) AND 0x07 = v
        then \<lparr>env = env b, trace = trace b @ [Bus_read BME280_CONFIG_ADDR 1]\<rparr>
        else \<lparr>env = (env b)(BME280_CONFIG_ADDR := (env b BME280_CONFIG_ADDR AND 0x1F) OR push_bit 5 v),
              trace = trace b @ [Bus_read BME280_CONFIG_ADDR 1,
                Bus_write BME280_CONFIG_ADDR ((env b BME280_CONFIG_ADDR AND 0x1F) OR push_bit 5 v)]\<rparr>))"
  using assms
  by (auto simp: BME280_SetTStby_def is_sleep_ok drv_read_def drv_write_def regfile_driver_def
      regfile_read_def regfile_write_def Let_def BME280_OK_def)

lemma SetTStby_twice:
  assumes "driver Dev = Some regfile_driver" and "initialized Dev \<noteq> not_initialized"
    and "mode Dev = sleep_mode" and "v \<le> BME280_STBY_20MS"
  shows "\<exists>b1 b2. BME280_SetTStby Dev v b = Some (BME280_OK, Dev, b1) \<and>
           BME280_SetTStby Dev v b1 = Some (BME280_OK, Dev, b2) \<and>
           bus_writes b1 = bus_writes b
             + (if drop_bit 5 (env b BME280_CONFIG_ADDR) AND 0x07 = v then 0 else 1) \<and>
           bus_writes b2 = bus_writes b1"
proof -
  have v7: "v \<le> 7" using assms(4) by (simp add: enum_defs word_le_nat_alt)
  note first = SetTStby_regfile [OF assms, of b]
  show ?thesis
  proof (cases "drop_bit 5 (env b BME280_CONFIG_ADDR) AND 0x07 = v")
    case True
    let ?b1 = "\<lparr>env = env b, trace = trace b @ [Bus_read BME280_CONFIG_ADDR 1]\<rparr>"
    have 1: "BME280_SetTStby Dev v b = Some (BME280_OK, Dev, ?b1)"
      using first True by simp
    have 2: "BME280_SetTStby Dev v ?b1 = Some (BME280_OK, Dev,
        \<lparr>env = env b, trace = trace ?b1 @ [Bus_read BME280_CONFIG_ADDR 1]\<rparr>)"
      using SetTStby_regfile [OF assms, of ?b1] True by simp
    show ?thesis
      unfolding 1 using 2 True by (simp add: bus_writes_def)
  next
    case False
    let ?new = "(env b BME280_CONFIG_ADDR AND 0x1F) OR push_bit 5 v"
    let ?b1 = "\<lparr>env = (env b)(BME280_CONFIG_ADDR := ?new),
               trace = trace b @ [Bus_read BME280_CONFIG_ADDR 1, Bus_write BME280_CONFIG_ADDR ?new]\<rparr>"
    have 1: "BME280_SetTStby Dev v b = Some (BME280_OK, Dev, ?b1)"
      using first False by simp
    have f: "drop_bit 5 (env ?b1 BME280_CONFIG_ADDR) AND 0x07 = v"
      using rmw5 [OF v7] by simp
    have 2: "BME280_SetTStby Dev v ?b1 = Some (BME280_OK, Dev,
        \<lparr>env = env ?b1, trace = trace ?b1 @ [Bus_read BME280_CONFIG_ADDR 1]\<rparr>)"
      using SetTStby_regfile [OF assms, of ?b1] f by simp
    show ?thesis
      unfolding 1 using 2 False by (simp add: bus_writes_def)
  qed
qed

lemma SetFilter_regfile:
  assumes "driver Dev = Some regfile_driver" and "initialized Dev \<noteq> not_initialized"
    and "mode Dev = sleep_mode" and "v \<le> BME280_FILTER_16"
  shows "BME280_SetFilter Dev v b =
     Some (BME280_OK, Dev,
       (if drop_bit 2 (env b BME280_CONFIG_ADDR) AND 0x07 = v
        then \<lparr>env = env b, trace = trace b @ [Bus_read BME280_CONFIG_ADDR 1]\<rparr>
        else \<lparr>env = (env b)(BME280_CONFIG_ADDR := (env b BME280_CONFIG_ADDR AND 0xE3) OR push_bit 2 v),
              trace = trace b @ [Bus_read BME280_CONFIG_ADDR 1,
                Bus_write BME280_CONFIG_ADDR ((env b BME280_CONFIG_ADDR AND 0xE3) OR push_bit 2 v)]\<rparr>))"
  using assms
  by (auto simp: BME280_SetFilter_def is_sleep_ok drv_read_def drv_write_def regfile_driver_def
      regfile_read_def regfile_write_def Let_def BME280_OK_def)

lemma SetFilter_twice:
  assumes "driver Dev = Some regfile_driver" and "initialized Dev \<noteq> not_initialized"
    and "mode Dev = sleep_mode" and "v \<le> BME280_FILTER_16"
  shows "\<exists>b1 b2. BME280_SetFilter Dev v b = Some (BME280_OK, Dev, b1) \<and>
           BME280_SetFilter Dev v b1 = Some (BME280_OK, Dev, b2) \<and>
           bus_writes b1 = bus_writes b
             + (if drop_bit 2 (env b BME280_CONFIG_ADDR) AND 0x07 = v then 0 else 1) \<and>
           bus_writes b2 = bus_writes b1"
proof -
  have v7: "v \<le> 7" using assms(4) by (simp add: enum_defs word_le_nat_alt)
  note first = SetFilter_regfile [OF assms, of b]
  show ?thesis
  proof (cases "drop_bit 2 (env b BME280_CONFIG_ADDR) AND 0x07 = v")
    case True
    let ?b1 = "\<lparr>env = env b, trace = trace b @ [Bus_read BME280_CONFIG_ADDR 1]\<rparr>"
    have 1: "BME280_SetFilter Dev v b = Some (BME280_OK, Dev, ?b1)"
      using first True by simp
    have 2: "BME280_SetFilter Dev v ?b1 = Some (BME280_OK, Dev,
        \<lparr>env = env b, trace = trace ?b1 @ [Bus_read BME280_CONFIG_ADDR 1]\<rparr>)"
      using SetFilter_regfile [OF assms, of ?b1] True by simp
    show ?thesis
      unfolding 1 using 2 True by (simp add: bus_writes_def)
  next
    case False
    let ?new = "(env b BME280_CONFIG_ADDR AND 0xE3) OR push_bit 2 v"
    let ?b1 = "\<lparr>env = (env b)(BME280_CONFIG_ADDR := ?new),
               trace = trace b @ [Bus_read BME280_CONFIG_ADDR 1, Bus_write BME280_CONFIG_ADDR ?new]\<rparr>"
    have 1: "BME280_SetFilter Dev v b = Some (BME280_OK, Dev, ?b1)"
      using first False by simp
    have f: "drop_bit 2 (env ?b1 BME280_CONFIG_ADDR) AND 0x07 = v"
      using rmw2 [OF v7] by simp
    have 2: "BME280_SetFilter Dev v ?b1 = Some (BME280_OK, Dev,
        \<lparr>env = env ?b1, trace = trace ?b1 @ [Bus_read BME280_CONFIG_ADDR 1]\<rparr>)"
      using SetFilter_regfile [OF assms, of ?b1] f by simp
    show ?thesis
      unfolding 1 using 2 False by (simp add: bus_writes_def)
  qed
qed


lemma Enable3WireSPI_regfile:
  assumes "driver Dev = Some regfile_driver" and "initialized Dev \<noteq> not_initialized"
    and "mode Dev = sleep_mode"
  shows "BME280_Enable3WireSPI Dev b =
     Some (BME280_OK, Dev,
       (if env b BME280_CONFIG_ADDR AND 0x01 = 0x01
        then \<lparr>env = env b, trace = trace b @ [Bus_read BME280_CONFIG_ADDR 1]\<rparr>
        else \<lparr>env = (env b)(BME280_CONFIG_ADDR := (env b BME280_CONFIG_ADDR AND 0xFE) OR 0x01),
              trace = trace b @ [Bus_read BME280_CONFIG_ADDR 1,
                Bus_write BME280_CONFIG_ADDR ((env b BME280_CONFIG_ADDR AND 0xFE) OR 0x01)]\<rparr>))"
  using assms
  by (auto simp: BME280_Enable3WireSPI_def is_sleep_ok drv_read_def drv_write_def
      regfile_driver_def regfile_read_def regfile_write_def Let_def BME280_OK_def)

lemma Disable3WireSPI_regfile:
  assumes "driver Dev = Some regfile_driver" and "initialized Dev \<noteq> not_initialized"
    and "mode Dev = sleep_mode"
  shows "BME280_Disable3WireSPI Dev b =
     Some (BME280_OK, Dev,
       (if env b BME280_CONFIG_ADDR AND 0x01 = 0x00
        then \<lparr>env = env b, trace = trace b @ [Bus_read BME280_CONFIG_ADDR 1]\<rparr>
        else \<lparr>env = (env b)(BME280_CONFIG_ADDR := env b BME280_CONFIG_ADDR AND 0xFE),
              trace = trace b @ [Bus_read BME280_CONFIG_ADDR 1,
                Bus_write BME280_CONFIG_ADDR (env b BME280_CONFIG_ADDR AND 0xFE)]\<rparr>))"
  using assms
  by (auto simp: BME280_Disable3WireSPI_def is_sleep_ok drv_read_def drv_write_def
      regfile_driver_def regfile_read_def regfile_write_def Let_def BME280_OK_def)

lemma Enable3WireSPI_twice:
  assumes "driver Dev = Some regfile_driver" and "initialized Dev \<noteq> not_initialized"
    and "mode Dev = sleep_mode"
  shows "\<exists>b1 b2. BME280_Enable3WireSPI Dev b = Some (BME280_OK, Dev, b1) \<and>
           BME280_Enable3WireSPI Dev b1 = Some (BME280_OK, Dev, b2) \<and>
           bus_writes b1 = bus_writes b
             + (if env b BME280_CONFIG_ADDR AND 0x01 = 0x01 then 0 else 1) \<and>
           bus_writes b2 = bus_writes b1"
proof (cases "env b BME280_CONFIG_ADDR AND 0x01 = 0x01")
  case True
  let ?b1 = "\<lparr>env = env b, trace = trace b @ [Bus_read BME280_CONFIG_ADDR 1]\<rparr>"
  have 1: "BME280_Enable3WireSPI Dev b = Some (BME280_OK, Dev, ?b1)"
    using Enable3WireSPI_regfile [OF assms, of b] True by simp
  have 2: "BME280_Enable3WireSPI Dev ?b1 = Some (BME280_OK, Dev,
      \<lparr>env = env b, trace = trace ?b1 @ [Bus_read BME280_CONFIG_ADDR 1]\<rparr>)"
    using Enable3WireSPI_regfile [OF assms, of ?b1] True by simp
  show ?thesis unfolding 1 using 2 True by (simp add: bus_writes_def)
next
  case False
  let ?new = "(env b BME280_CONFIG_ADDR AND 0xFE) OR 0x01"
  let ?b1 = "\<lparr>env = (env b)(BME280_CONFIG_ADDR := ?new),
             trace = trace b @ [Bus_read BME280_CONFIG_ADDR 1, Bus_write BME280_CONFIG_ADDR ?new]\<rparr>"
  have 1: "BME280_Enable3WireSPI Dev b = Some (BME280_OK, Dev, ?b1)"
    using Enable3WireSPI_regfile [OF assms, of b] False by simp
  have f: "env ?b1 BME280_CONFIG_ADDR AND 0x01 = 0x01"
    using spi_on by simp
  have 2: "BME280_Enable3WireSPI Dev ?b1 = Some (BME280_OK, Dev,
      \<lparr>env = env ?b1, trace = trace ?b1 @ [Bus_read BME280_CONFIG_ADDR 1]\<rparr>)"
    using Enable3WireSPI_regfile [OF assms, of ?b1] f by simp
  show ?thesis unfolding 1 using 2 False by (simp add: bus_writes_def)
qed

lemma Disable3WireSPI_twice:
  assumes "driver Dev = Some regfile_driver" and "initialized Dev \<noteq> not_initialized"
    and "mode Dev = sleep_mode"
  shows "\<exists>b1 b2. BME280_Disable3WireSPI Dev b = Some (BME280_OK, Dev, b1) \<and>
           BME280_Disable3WireSPI Dev b1 = Some (BME280_OK, Dev, b2) \<and>
           bus_writes b1 = bus_writes b
             + (if env b BME280_CONFIG_ADDR AND 0x01 = 0x00 then 0 else 1) \<and>
           bus_writes b2 = bus_writes b1"
proof (cases "env b BME280_CONFIG_ADDR AND 0x01 = 0x00")
  case True
  let ?b1 = "\<lparr>env = env b, trace = trace b @ [Bus_read BME280_CONFIG_ADDR 1]\<rparr>"
  have 1: "BME280_Disable3WireSPI Dev b = Some (BME280_OK, Dev, ?b1)"
    using Disable3WireSPI_regfile [OF assms, of b] True by simp
  have 2: "BME280_Disable3WireSPI Dev ?b1 = Some (BME280_OK, Dev,
      \<lparr>env = env b, trace = trace ?b1 @ [Bus_read BME280_CONFIG_ADDR 1]\<rparr>)"
    using Disable3WireSPI_regfile [OF assms, of ?b1] True by simp
  show ?thesis unfolding 1 using 2 True by (simp add: bus_writes_def)
next
  case False
  let ?new = "env b BME280_CONFIG_ADDR AND 0xFE"
  let ?b1 = "\<lparr>env = (env b)(BME280_CONFIG_ADDR := ?new),
             trace = trace b @ [Bus_read BME280_CONFIG_ADDR 1, Bus_write BME280_CONFIG_ADDR ?new]\<rparr>"
  have 1: "BME280_Disable3WireSPI Dev b = Some (BME280_OK, Dev, ?b1)"
    using Disable3WireSPI_regfile [OF assms, of b] False by simp
  have f: "env ?b1 BME280_CONFIG_ADDR AND 0x01 = 0x00"
    using spi_off by simp
  have 2: "BME280_Disable3WireSPI Dev ?b1 = Some (BME280_OK, Dev,
      \<lparr>env = env ?b1, trace = trace ?b1 @ [Bus_read BME280_CONFIG_ADDR 1]\<rparr>)"
    using Disable3WireSPI_regfile [OF assms, of ?b1] f by simp
  show ?thesis unfolding 1 using 2 False by (simp add: bus_writes_def)
qed

text \<open>The humidity setter on the register file: every call with an in-range value
  succeeds with two writes, whatever the registers hold.\<close>

lemma SetHOvs_regfile:
  assumes "driver Dev = Some regfile_driver" and "initialized Dev \<noteq> not_initialized"
    and "mode Dev = sleep_mode" and "v \<le> BME280_OVERSAMPLING_X16"
  shows "\<exists>b1. BME280_SetHOvs Dev v b = Some (BME280_OK, Dev, b1) \<and>
           bus_writes b1 = bus_writes b + 2"
  using assms
  by (auto simp: BME280_SetHOvs_def is_sleep_ok drv_read_def drv_write_def regfile_driver_def
      regfile_read_def regfile_write_def Let_def BME280_OK_def bus_writes_def)

text \<open>
  Claim C4, as amended.  On a sensor whose registers keep what is written, for an
  initialised device in sleep mode and in-range values, each of the setters of pressure
  oversampling, temperature oversampling, standby time, filter and the two 3-wire-SPI
  setters, called twice in a row with the same value, succeeds both times; the first
  call performs one bus write if the register field differs from the requested value
  and none if it already holds it, and the second call performs none.
\<close>

theorem setter_twice_writes_once:
  assumes "driver Dev = Some regfile_driver" and "initialized Dev \<noteq> not_initialized"
    and "mode Dev = sleep_mode"
    and "POvs \<le> BME280_OVERSAMPLING_X16" and "TOvs \<le> BME280_OVERSAMPLING_X16"
    and "TStby \<le> BME280_STBY_20MS" and "Filter \<le> BME280_FILTER_16"
  shows
    "(\<exists>b1 b2. BME280_SetPOvs Dev POvs b = Some (BME280_OK, Dev, b1) \<and>
        BME280_SetPOvs Dev POvs b1 = Some (BME280_OK, Dev, b2) \<and>
        bus_writes b1 = bus_writes b
          + (if drop_bit 2 (env b BME280_CTRL_MEAS_ADDR) AND 0x07 = POvs then 0 else 1) \<and>
        bus_writes b2 = bus_writes b1) \<and>
     (\<exists>b1 b2. BME280_SetTOvs Dev TOvs b = Some (BME280_OK, Dev, b1) \<and>
        BME280_SetTOvs Dev TOvs b1 = Some (BME280_OK, Dev, b2) \<and>
        bus_writes b1 = bus_writes b
          + (if drop_bit 5 (env b BME280_CTRL_MEAS_ADDR) AND 0x07 = TOvs then 0 else 1) \<and>
        bus_writes b2 = bus_writes b1) \<and>
     (\<exists>b1 b2. BME280_SetTStby Dev TStby b = Some (BME280_OK, Dev, b1) \<and>
        BME280_SetTStby Dev TStby b1 = Some (BME280_OK, Dev, b2) \<and>
        bus_writes b1 = bus_writes b
          + (if drop_bit 5 (env b BME280_CONFIG_ADDR) AND 0x07 = TStby then 0 else 1) \<and>
        bus_writes b2 = bus_writes b1) \<and>
     (\<exists>b1 b2. BME280_SetFilter Dev Filter b = Some (BME280_OK, Dev, b1) \<and>
        BME280_SetFilter Dev Filter b1 = Some (BME280_OK, Dev, b2) \<and>
        bus_writes b1 = bus_writes b
          + (if drop_bit 2 (env b BME280_CONFIG_ADDR) AND 0x07 = Filter then 0 else 1) \<and>
        bus_writes b2 = bus_writes b1) \<and>
     (\<exists>b1 b2. BME280_Enable3WireSPI Dev b = Some (BME280_OK, Dev, b1) \<and>
        BME280_Enable3WireSPI Dev b1 = Some (BME280_OK, Dev, b2) \<and>
        bus_writes b1 = bus_writes b
          + (if env b BME280_CONFIG_ADDR AND 0x01 = 0x01 then 0 else 1) \<and>
        bus_writes b2 = bus_writes b1) \<and>
     (\<exists>b1 b2. BME280_Disable3WireSPI Dev b = Some (BME280_OK, Dev, b1) \<and>
        BME280_Disable3WireSPI Dev b1 = Some (BME280_OK, Dev, b2) \<and>
        bus_writes b1 = bus_writes b
          + (if env b BME280_CONFIG_ADDR AND 0x01 = 0x00 then 0 else 1) \<and>
        bus_writes b2 = bus_writes b1)"
  by (intro conjI SetPOvs_twice SetTOvs_twice SetTStby_twice SetFilter_twice
      Enable3WireSPI_twice Disable3WireSPI_twice assms)

text \<open>The theorem on the register file of zeros: setting the pressure oversampling to x4
  writes once, and setting it to x4 again does not write.\<close>

theorem setter_twice_writes_once_witness:
  "driver ready_dev = Some regfile_driver \<and> initialized ready_dev \<noteq> not_initialized \<and>
   mode ready_dev = sleep_mode \<and>
   (3 :: u8) \<le> BME280_OVERSAMPLING_X16 \<and> (0 :: u8) \<le> BME280_STBY_20MS \<and>
   (0 :: u8) \<le> BME280_FILTER_16 \<and>
   (\<exists>b1 b2. BME280_SetPOvs ready_dev 3 idle_bus = Some (BME280_OK, ready_dev, b1) \<and>
      BME280_SetPOvs ready_dev 3 b1 = Some (BME280_OK, ready_dev, b2) \<and>
      bus_writes b1 = 1 \<and> bus_writes b2 = 1)"
proof -
  have d: "driver ready_dev = Some regfile_driver"
    and i: "initialized ready_dev \<noteq> not_initialized"
    and m: "mode ready_dev = sleep_mode"
    by (simp_all add: ready_dev_def blank_dev_def enum_defs)
  have p: "(3 :: u8) \<le> BME280_OVERSAMPLING_X16"
    and s: "(0 :: u8) \<le> BME280_STBY_20MS" and f: "(0 :: u8) \<le> BME280_FILTER_16"
    by (simp_all add: enum_defs)
  have z: "bus_writes idle_bus = 0"
    "drop_bit 2 (env idle_bus BME280_CTRL_MEAS_ADDR) AND 0x07 \<noteq> 3"
    by (simp_all add: bus_writes_def idle_bus_def zero_regs_def)
  from setter_twice_writes_once [OF d i m p p s f, of idle_bus]
  have "\<exists>b1 b2. BME280_SetPOvs ready_dev 3 idle_bus = Some (BME280_OK, ready_dev, b1) \<and>
      BME280_SetPOvs ready_dev 3 b1 = Some (BME280_OK, ready_dev, b2) \<and>
      bus_writes b1 = 1 \<and> bus_writes b2 = 1"
    using z by auto
  with d i m p s f show ?thesis by simp
qed

text \<open>
  The claim as stated fails in two ways.  A setter whose register field already holds
  the requested value writes nothing on the first call: on the register file of zeros,
  \<open>BME280_SetPOvs\<close> with 0 only reads.  And the humidity setter writes twice on every
  call: called twice with 1 it performs two writes the first time and two more the
  second time.
\<close>

theorem setter_twice_writes_once_counterexample:
  "BME280_SetPOvs ready_dev 0 idle_bus =
     Some (BME280_OK, ready_dev, \<lparr>env = zero_regs, trace = [Bus_read 0xF4 1]\<rparr>) \<and>
   bus_writes \<lparr>env = zero_regs, trace = [Bus_read 0xF4 1]\<rparr> = bus_writes idle_bus \<and>
   BME280_SetHOvs ready_dev 1 idle_bus =
     Some (BME280_OK, ready_dev,
       \<lparr>env = zero_regs(0xF2 := 1),
        trace = [Bus_write 0xF2 1, Bus_read 0xF4 1, Bus_write 0xF4 0]\<rparr>) \<and>
   BME280_SetHOvs ready_dev 1
       \<lparr>env = zero_regs(0xF2 := 1),
        trace = [Bus_write 0xF2 1, Bus_read 0xF4 1, Bus_write 0xF4 0]\<rparr> =
     Some (BME280_OK, ready_dev,
       \<lparr>env = zero_regs(0xF2 := 1),
        trace = [Bus_write 0xF2 1, Bus_read 0xF4 1, Bus_write 0xF4 0,
                 Bus_write 0xF2 1, Bus_read 0xF4 1, Bus_write 0xF4 0]\<rparr>) \<and>
   bus_writes \<lparr>env = zero_regs(0xF2 := 1),
               trace = [Bus_write 0xF2 1, Bus_read 0xF4 1, Bus_write 0xF4 0,
                        Bus_write 0xF2 1, Bus_read 0xF4 1, Bus_write 0xF4 0]\<rparr>
     = bus_writes \<lparr>env = zero_regs(0xF2 := 1),
                   trace = [Bus_write 0xF2 1, Bus_read 0xF4 1, Bus_write 0xF4 0]\<rparr> + 2"
proof -
  have d: "driver ready_dev = Some regfile_driver"
    and s: "bme280_is_sleep_mode ready_dev = BME280_OK"
    by (simp_all add: ready_dev_def blank_dev_def enum_defs bme280_is_sleep_mode_def)
  have P: "BME280_SetPOvs ready_dev 0 idle_bus =
     Some (BME280_OK, ready_dev, \<lparr>env = zero_regs, trace = [Bus_read 0xF4 1]\<rparr>)"
    by (simp add: BME280_SetPOvs_def s d drv_read_def regfile_driver_def regfile_read_def
        idle_bus_def zero_regs_def Let_def BME280_OK_def BME280_CTRL_MEAS_ADDR_def
        BME280_OVERSAMPLING_X16_def)
  have H1: "BME280_SetHOvs ready_dev 1 idle_bus =
     Some (BME280_OK, ready_dev,
       \<lparr>env = zero_regs(0xF2 := 1),
        trace = [Bus_write 0xF2 1, Bus_read 0xF4 1, Bus_write 0xF4 0]\<rparr>)"
    by (simp add: BME280_SetHOvs_def s d drv_read_def drv_write_def regfile_driver_def
        regfile_read_def regfile_write_def idle_bus_def Let_def BME280_OK_def
        BME280_CTRL_MEAS_ADDR_def BME280_CTRL_HUM_ADDR_def BME280_OVERSAMPLING_X16_def
        zero_regs_def)
  have H2: "BME280_SetHOvs ready_dev 1
       \<lparr>env = zero_regs(0xF2 := 1),
        trace = [Bus_write 0xF2 1, Bus_read 0xF4 1, Bus_write 0xF4 0]\<rparr> =
     Some (BME280_OK, ready_dev,
       \<lparr>env = zero_regs(0xF2 := 1),
        trace = [Bus_write 0xF2 1, Bus_read 0xF4 1, Bus_write 0xF4 0,
                 Bus_write 0xF2 1, Bus_read 0xF4 1, Bus_write 0xF4 0]\<rparr>)"
    by (simp add: BME280_SetHOvs_def s d drv_read_def drv_write_def regfile_driver_def
        regfile_read_def regfile_write_def Let_def BME280_OK_def
        BME280_CTRL_MEAS_ADDR_def BME280_CTRL_HUM_ADDR_def BME280_OVERSAMPLING_X16_def
        zero_regs_def)
  show ?thesis
    unfolding P H1 H2 by (simp add: bus_writes_def idle_bus_def)
qed

end
